theory Spec2Isabelle
  imports Complex_Main
begin

section \<open>Python values\<close>

text \<open>
  The ledger and the contract engine of \<^verbatim>\<open>blockchain_verification.py\<close> work on
  untyped dictionaries. A Python value is modelled by the datatype below: a dictionary
  is an association list in insertion order with string keys, an \<^verbatim>\<open>int\<close> is an
  unbounded integer, and a finite \<^verbatim>\<open>float\<close> is the rational number it denotes
  (every finite double is one; infinities and NaN are outside the model).
\<close>

datatype pyval =
    PNone
  | PBool bool
  | PInt int
  | PFloat rat
  | PStr string
  | PList "pyval list"
  | PDict "(string \<times> pyval) list"

section \<open>The ledger\<close>

text \<open>
  A block is the dictionary built by \<^verbatim>\<open>_initialize_simple_blockchain\<close> and
  \<^verbatim>\<open>_add_block_to_simple_chain\<close>. The record \<open>unsealed\<close> holds the keys that
  are serialised and hashed; \<open>block\<close> adds the key \<^verbatim>\<open>hash\<close>. The genesis block
  has no key \<^verbatim>\<open>nonce\<close>, so the field is optional.
\<close>

record unsealed =
  index :: int
  timestamp :: rat
  data :: pyval
  previous_hash :: string
  nonce :: "int option"

record block = unsealed +
  hash :: string

text \<open>The dictionary that \<^verbatim>\<open>json.dumps\<close> receives: the block without its hash.\<close>

definition block_dict :: "unsealed \<Rightarrow> pyval" where
  "block_dict u =
     PDict ([(''index'', PInt (index u)), (''timestamp'', PFloat (timestamp u)),
             (''data'', data u), (''previous_hash'', PStr (previous_hash u))]
            @ (case nonce u of None \<Rightarrow> [] | Some n \<Rightarrow> [(''nonce'', PInt n)]))"

text \<open>\<^verbatim>\<open>block_copy = current_block.copy(); block_copy.pop("hash", "")\<close>\<close>

definition without_hash :: "block \<Rightarrow> unsealed" where
  "without_hash b =
     \<lparr>index = index b, timestamp = timestamp b, data = data b,
      previous_hash = previous_hash b, nonce = nonce b\<rparr>"

definition seal :: "unsealed \<Rightarrow> string \<Rightarrow> block" where
  "seal u h =
     \<lparr>index = index u, timestamp = timestamp u, data = data u,
      previous_hash = previous_hash u, nonce = nonce u, hash = h\<rparr>"

text \<open>
  Two library functions are parameters of the model, since they are not code of this
  repository: \<open>sha\<close> stands for
  \<^verbatim>\<open>lambda s: hashlib.sha256(s.encode()).hexdigest()\<close> and \<open>dumps\<close> for
  \<^verbatim>\<open>lambda d: json.dumps(d, sort_keys=True)\<close>. Every theorem below holds for all
  such functions.
\<close>

type_synonym sha_fn = "string \<Rightarrow> string"
type_synonym dumps_fn = "pyval \<Rightarrow> string"

definition block_digest :: "sha_fn \<Rightarrow> dumps_fn \<Rightarrow> unsealed \<Rightarrow> string" where
  "block_digest sha dumps u = sha (dumps (block_dict u))"

text \<open>\<^verbatim>\<open>block_hash.startswith("0" * difficulty)\<close> with \<^verbatim>\<open>difficulty = 2\<close>.\<close>

definition difficulty :: nat where
  "difficulty = 2"

definition meets_target :: "string \<Rightarrow> bool" where
  "meets_target h = (take difficulty h = replicate difficulty CHR ''0'')"

subsection \<open>Genesis\<close>

text \<open>
  The readings of the clock are inputs: \<open>now\<close> is \<^verbatim>\<open>time.time()\<close> and \<open>utc\<close> is
  \<^verbatim>\<open>datetime.utcnow().isoformat()\<close>.
\<close>

definition genesis_block :: "sha_fn \<Rightarrow> rat \<Rightarrow> string \<Rightarrow> block" where
  "genesis_block sha now utc =
     \<lparr>index = 0, timestamp = now,
      data = PDict [(''type'', PStr ''genesis''),
                    (''message'', PStr ''GreenGuard Blockchain Genesis Block''),
                    (''timestamp'', PStr utc),
                    (''version'', PStr ''2.0_with_smart_contracts'')],
      previous_hash = ''0'', nonce = None,
      hash = sha ''greenguard_genesis_block''\<rparr>"

definition initialize_simple_blockchain ::
  "sha_fn \<Rightarrow> rat \<Rightarrow> string \<Rightarrow> block list \<Rightarrow> block list" where
  "initialize_simple_blockchain sha now utc chain =
     (if chain = [] then chain @ [genesis_block sha now utc] else chain)"

subsection \<open>Appending a block\<close>

text \<open>
  The \<^verbatim>\<open>while True\<close> loop of \<^verbatim>\<open>_add_block_to_simple_chain\<close>. It has no bound
  on the number of iterations, so the model is a partial function: \<open>None\<close> means
  that the loop does not return.
\<close>

partial_function (option) mine :: "sha_fn \<Rightarrow> dumps_fn \<Rightarrow> unsealed \<Rightarrow> int \<Rightarrow> block option" where
  "mine sha dumps u n =
     (let block_hash = block_digest sha dumps (u\<lparr>nonce := Some n\<rparr>)
      in if meets_target block_hash
         then Some (seal (u\<lparr>nonce := Some n\<rparr>) block_hash)
         else mine sha dumps u (n + 1))"

text \<open>\<^verbatim>\<open>str\<close> of a Python integer, for the block id.\<close>

definition digit_char :: "nat \<Rightarrow> char" where
  "digit_char d = ''0123456789'' ! d"

function show_nat :: "nat \<Rightarrow> string" where
  "show_nat n =
     (if n < 10 then [digit_char n]
      else show_nat (n div 10) @ [digit_char (n mod 10)])"
  by pat_completeness auto
termination
  by (relation "measure id") auto

definition show_int :: "int \<Rightarrow> string" where
  "show_int i = (if i < 0 then CHR ''-'' # show_nat (nat (- i)) else show_nat (nat i))"

text \<open>\<^verbatim>\<open>int(x)\<close> of a float truncates towards zero.\<close>

definition py_int_of_float :: "rat \<Rightarrow> int" where
  "py_int_of_float x = (if x < 0 then - \<lfloor>- x\<rfloor> else \<lfloor>x\<rfloor>)"

definition block_id :: "int \<Rightarrow> rat \<Rightarrow> string" where
  "block_id i t = ''BLOCK_'' @ show_int i @ ''_'' @ show_int (py_int_of_float t)"

text \<open>
  \<open>gnow\<close> and \<open>gutc\<close> are the clock readings used if the chain is empty and the
  genesis block has to be made first; \<open>now\<close> is the new block's timestamp. The result
  is the new chain and the returned block id.
\<close>

definition add_block_to_simple_chain ::
  "sha_fn \<Rightarrow> dumps_fn \<Rightarrow> rat \<Rightarrow> string \<Rightarrow> rat \<Rightarrow> pyval \<Rightarrow> block list
     \<Rightarrow> (block list \<times> string) option" where
  "add_block_to_simple_chain sha dumps gnow gutc now d chain =
     (let chain1 = initialize_simple_blockchain sha gnow gutc chain;
          previous_block = last chain1;
          new_index = int (length chain1);
          block_data = \<lparr>index = new_index, timestamp = now, data = d,
                        previous_hash = hash previous_block, nonce = Some 0\<rparr>
      in case mine sha dumps block_data 0 of
           None \<Rightarrow> None
         | Some b \<Rightarrow> Some (chain1 @ [b], block_id new_index now))"

subsection \<open>Integrity check\<close>

text \<open>
  The loop of \<^verbatim>\<open>_validate_blockchain_integrity\<close> over \<^verbatim>\<open>range(1, len(chain))\<close>,
  as a recursion that carries the previous block.
\<close>

fun validate_from :: "sha_fn \<Rightarrow> dumps_fn \<Rightarrow> block \<Rightarrow> block list \<Rightarrow> bool" where
  "validate_from sha dumps previous_block [] = True"
| "validate_from sha dumps previous_block (current_block # rest) =
     (if previous_hash current_block \<noteq> hash previous_block then False
      else if hash current_block \<noteq> block_digest sha dumps (without_hash current_block)
      then False
      else validate_from sha dumps current_block rest)"

definition validate_blockchain_integrity :: "sha_fn \<Rightarrow> dumps_fn \<Rightarrow> block list \<Rightarrow> bool" where
  "validate_blockchain_integrity sha dumps chain =
     (if length chain \<le> 1 then True
      else validate_from sha dumps (hd chain) (tl chain))"


subsection \<open>Derived notions used in the statements\<close>

text \<open>
  The dictionary \<^verbatim>\<open>block_data\<close> of \<^verbatim>\<open>_add_block_to_simple_chain\<close> when its
  nonce is \<open>n\<close>, for a chain that already holds the genesis block.
\<close>

definition candidate :: "block list \<Rightarrow> rat \<Rightarrow> pyval \<Rightarrow> int \<Rightarrow> unsealed" where
  "candidate chain now d n =
     \<lparr>index = int (length chain), timestamp = now, data = d,
      previous_hash = hash (last chain), nonce = Some n\<rparr>"

text \<open>
  \<open>sealed_from sha dumps u n b\<close>: the block \<open>b\<close> is \<open>u\<close> sealed with the first
  nonce from \<open>n\<close> on whose digest meets the target.
\<close>

definition sealed_from :: "sha_fn \<Rightarrow> dumps_fn \<Rightarrow> unsealed \<Rightarrow> int \<Rightarrow> block \<Rightarrow> bool" where
  "sealed_from sha dumps u n b \<longleftrightarrow>
     (\<exists>m\<ge>n. b = seal (u\<lparr>nonce := Some m\<rparr>) (block_digest sha dumps (u\<lparr>nonce := Some m\<rparr>))
        \<and> meets_target (block_digest sha dumps (u\<lparr>nonce := Some m\<rparr>))
        \<and> (\<forall>k. n \<le> k \<and> k < m \<longrightarrow>
              \<not> meets_target (block_digest sha dumps (u\<lparr>nonce := Some k\<rparr>))))"

text \<open>
  The chains the module can hold: importing it (or \<^verbatim>\<open>reset_blockchain_for_testing\<close>)
  leaves the genesis block alone in the chain, and every call of
  \<^verbatim>\<open>_add_block_to_simple_chain\<close> that returns appends to it.
\<close>

inductive reachable :: "sha_fn \<Rightarrow> dumps_fn \<Rightarrow> block list \<Rightarrow> bool"
  for sha :: sha_fn and dumps :: dumps_fn where
  start: "reachable sha dumps (initialize_simple_blockchain sha now utc [])"
| add: "reachable sha dumps chain \<Longrightarrow>
        add_block_to_simple_chain sha dumps gnow gutc now d chain = Some (chain', bid) \<Longrightarrow>
        reachable sha dumps chain'"

subsection \<open>A small instance for the examples\<close>

text \<open>
  The examples below need concrete functions in place of the two library functions.
  \<open>demo_dumps\<close> writes a value out in full and \<open>demo_sha\<close> is a one-byte checksum in
  hexadecimal; under them the payload \<open>demo_payload\<close> is sealed at nonce 4.
\<close>

fun demo_dumps :: "pyval \<Rightarrow> string" where
  "demo_dumps PNone = ''null''"
| "demo_dumps (PBool b) = (if b then ''true'' else ''false'')"
| "demo_dumps (PInt i) = show_int i"
| "demo_dumps (PFloat r) = show_int \<lfloor>r\<rfloor> @ ''.0''"
| "demo_dumps (PStr s) = ''\"'' @ s @ ''\"''"
| "demo_dumps (PList xs) = ''['' @ concat (map demo_dumps xs) @ '']''"
| "demo_dumps (PDict kvs) =
     ''{'' @ concat (map (\<lambda>(k, v). k @ '':'' @ demo_dumps v @ '','') kvs) @ ''}''"

definition hex_char :: "nat \<Rightarrow> char" where
  "hex_char d = ''0123456789abcdef'' ! d"

definition demo_sha :: "string \<Rightarrow> string" where
  "demo_sha s =
     (let c = sum_list (map of_char s) mod 256 in [hex_char (c div 16), hex_char (c mod 16)])"

definition demo_genesis :: block where
  "demo_genesis = genesis_block demo_sha 1700000000 ''2023-11-14T22:13:20''"

definition demo_payload :: pyval where
  "demo_payload =
     PDict [(''type'', PStr ''verification''), (''company_name'', PStr ''TestCorp'')]"

definition demo_block :: block where
  "demo_block = \<lparr>index = 1, timestamp = 1700000000, data = demo_payload,
                  previous_hash = ''db'', nonce = Some 4, hash = ''00''\<rparr>"

definition demo_chain :: "block list" where
  "demo_chain = [demo_genesis, demo_block]"

text \<open>The same block with another company in its payload, and a genesis block with
  another message.\<close>

definition tampered_block :: block where
  "tampered_block = demo_block\<lparr>data :=
     PDict [(''type'', PStr ''verification''), (''company_name'', PStr ''OtherCorp'')]\<rparr>"

definition tampered_genesis :: block where
  "tampered_genesis = demo_genesis\<lparr>data := PDict [(''type'', PStr ''genesis'')]\<rparr>"


section \<open>The contract engine\<close>

subsection \<open>Python operations on values\<close>

text \<open>
  Every exception the evaluators can raise is an \<^verbatim>\<open>Exception\<close>, which
  \<^verbatim>\<open>execute\<close> catches; an evaluator is a function into \<open>py_exception + pyval\<close>.
\<close>

datatype py_exception = TypeError | AttributeError | KeyError | ValueError | OverflowError

definition bind :: "'e + 'a \<Rightarrow> ('a \<Rightarrow> 'e + 'b) \<Rightarrow> 'e + 'b" where
  "bind m f = (case m of Inl e \<Rightarrow> Inl e | Inr x \<Rightarrow> f x)"

text \<open>
  Built-in functions of Python that the engine calls are parameters of the model:
  \<open>py_str\<close> is \<^verbatim>\<open>str\<close>, \<open>fl\<close> rounds the exact result of a floating-point
  operation to the double that the operation returns, and \<open>round2\<close> is
  \<^verbatim>\<open>round(x, 2)\<close> on a float.
\<close>

record builtins =
  py_str :: "pyval \<Rightarrow> string"
  fl :: "rat \<Rightarrow> rat"
  round2 :: "rat \<Rightarrow> rat"

text \<open>\<^verbatim>\<open>d.get(k, default)\<close>; a value that is no dictionary has no \<^verbatim>\<open>get\<close>.\<close>

definition py_get :: "pyval \<Rightarrow> string \<Rightarrow> pyval \<Rightarrow> py_exception + pyval" where
  "py_get d k dflt =
     (case d of
        PDict kvs \<Rightarrow> Inr (case map_of kvs k of None \<Rightarrow> dflt | Some v \<Rightarrow> v)
      | _ \<Rightarrow> Inl AttributeError)"

text \<open>The numbers: \<^verbatim>\<open>bool\<close> is a subclass of \<^verbatim>\<open>int\<close>.\<close>

fun py_int :: "pyval \<Rightarrow> int option" where
  "py_int (PBool b) = Some (if b then 1 else 0)"
| "py_int (PInt i) = Some i"
| "py_int _ = None"

fun py_number :: "pyval \<Rightarrow> rat option" where
  "py_number (PBool b) = Some (if b then 1 else 0)"
| "py_number (PInt i) = Some (of_int i)"
| "py_number (PFloat r) = Some r"
| "py_number _ = None"

text \<open>
  Comparison of a value with an integer constant: Python compares an \<^verbatim>\<open>int\<close> and a
  \<^verbatim>\<open>float\<close> by their exact values, and raises \<^verbatim>\<open>TypeError\<close> if the value is
  no number.
\<close>

definition py_lt :: "pyval \<Rightarrow> int \<Rightarrow> py_exception + bool" where
  "py_lt v n = (case py_number v of None \<Rightarrow> Inl TypeError | Some r \<Rightarrow> Inr (r < of_int n))"

definition py_gt :: "pyval \<Rightarrow> int \<Rightarrow> py_exception + bool" where
  "py_gt v n = (case py_number v of None \<Rightarrow> Inl TypeError | Some r \<Rightarrow> Inr (r > of_int n))"

definition py_ge :: "pyval \<Rightarrow> int \<Rightarrow> py_exception + bool" where
  "py_ge v n = (case py_number v of None \<Rightarrow> Inl TypeError | Some r \<Rightarrow> Inr (r \<ge> of_int n))"

text \<open>\<^verbatim>\<open>a and b\<close> on conditions that may raise: \<open>b\<close> is not evaluated if \<open>a\<close> is false.\<close>

definition py_and :: "py_exception + bool \<Rightarrow> py_exception + bool \<Rightarrow> py_exception + bool" where
  "py_and a b = bind a (\<lambda>x. if x then b else Inr False)"

fun py_truthy :: "pyval \<Rightarrow> bool" where
  "py_truthy PNone = False"
| "py_truthy (PBool b) = b"
| "py_truthy (PInt i) = (i \<noteq> 0)"
| "py_truthy (PFloat r) = (r \<noteq> 0)"
| "py_truthy (PStr s) = (s \<noteq> [])"
| "py_truthy (PList xs) = (xs \<noteq> [])"
| "py_truthy (PDict kvs) = (kvs \<noteq> [])"

fun py_len :: "pyval \<Rightarrow> py_exception + int" where
  "py_len (PStr s) = Inr (int (length s))"
| "py_len (PList xs) = Inr (int (length xs))"
| "py_len (PDict kvs) = Inr (int (length kvs))"
| "py_len _ = Inl TypeError"

text \<open>
  The items of \<^verbatim>\<open>v[-n:]\<close>, and of \<^verbatim>\<open>v\<close> itself when it is iterated. A dictionary
  cannot be sliced; iterating it gives its keys.
\<close>

fun py_last :: "nat \<Rightarrow> pyval \<Rightarrow> py_exception + pyval list" where
  "py_last n (PList xs) = Inr (drop (length xs - n) xs)"
| "py_last n (PStr s) = Inr (map (\<lambda>c. PStr [c]) (drop (length s - n) s))"
| "py_last n (PDict kvs) = Inl KeyError"
| "py_last n _ = Inl TypeError"

fun py_iter :: "pyval \<Rightarrow> py_exception + pyval list" where
  "py_iter (PList xs) = Inr xs"
| "py_iter (PStr s) = Inr (map (\<lambda>c. PStr [c]) s)"
| "py_iter (PDict kvs) = Inr (map (\<lambda>(k, v). PStr k) kvs)"
| "py_iter _ = Inl TypeError"

text \<open>
  A key of a dictionary must be hashable: looking a list or a dictionary up in one of
  the constant tables raises \<^verbatim>\<open>TypeError\<close>; any other value that is no key of the
  table gives the default.
\<close>

definition table_get :: "(string \<times> 'a) list \<Rightarrow> pyval \<Rightarrow> 'a \<Rightarrow> py_exception + 'a" where
  "table_get table key dflt =
     (case key of
        PStr s \<Rightarrow> Inr (case map_of table s of None \<Rightarrow> dflt | Some v \<Rightarrow> v)
      | PList _ \<Rightarrow> Inl TypeError
      | PDict _ \<Rightarrow> Inl TypeError
      | _ \<Rightarrow> Inr dflt)"

text \<open>
  Arithmetic. An operation with a float operand is done in floating point: an
  \<^verbatim>\<open>int\<close> operand is converted to a double first, and the conversion raises
  \<^verbatim>\<open>OverflowError\<close> if the integer rounds to no finite double. The largest double is
  \<open>2 ^ 1024 - 2 ^ 971\<close>, and rounding to nearest takes every value of magnitude
  \<open>2 ^ 1024 - 2 ^ 970\<close> or more beyond it.
\<close>

definition float_overflows :: "rat \<Rightarrow> bool" where
  "float_overflows x = (2 ^ 1024 - 2 ^ 970 \<le> \<bar>x\<bar>)"

definition to_float :: "builtins \<Rightarrow> pyval \<Rightarrow> py_exception + rat" where
  "to_float bi v =
     (case v of PFloat r \<Rightarrow> Inr r
      | _ \<Rightarrow> (case py_int v of
                 None \<Rightarrow> Inl TypeError
               | Some i \<Rightarrow> if float_overflows (of_int i) then Inl OverflowError
                          else Inr (fl bi (of_int i))))"

text \<open>
  Two integers are combined exactly. Otherwise an operand that is no number raises
  \<^verbatim>\<open>TypeError\<close>, whatever the other one is; of two numbers one is a float, and the
  other is converted.
\<close>

definition py_arith ::
  "builtins \<Rightarrow> (int \<Rightarrow> int \<Rightarrow> int) \<Rightarrow> (rat \<Rightarrow> rat \<Rightarrow> rat) \<Rightarrow> pyval \<Rightarrow> pyval
     \<Rightarrow> py_exception + pyval" where
  "py_arith bi iop fop a b =
     (case (py_int a, py_int b) of
        (Some i, Some j) \<Rightarrow> Inr (PInt (iop i j))
      | _ \<Rightarrow> if py_number a = None \<or> py_number b = None then Inl TypeError
             else bind (to_float bi a) (\<lambda>x.
                  bind (to_float bi b) (\<lambda>y. Inr (PFloat (fl bi (fop x y))))))"

definition py_add :: "builtins \<Rightarrow> pyval \<Rightarrow> pyval \<Rightarrow> py_exception + pyval" where
  "py_add bi a b =
     (case (a, b) of
        (PStr s, PStr t) \<Rightarrow> Inr (PStr (s @ t))
      | (PList xs, PList ys) \<Rightarrow> Inr (PList (xs @ ys))
      | _ \<Rightarrow> py_arith bi (+) (+) a b)"

definition py_sub :: "builtins \<Rightarrow> pyval \<Rightarrow> pyval \<Rightarrow> py_exception + pyval" where
  "py_sub bi a b = py_arith bi (-) (-) a b"

text \<open>\<^verbatim>\<open>v * n\<close> for a positive integer constant \<open>n\<close>; a string or a list is repeated.\<close>

definition py_mul :: "builtins \<Rightarrow> pyval \<Rightarrow> int \<Rightarrow> py_exception + pyval" where
  "py_mul bi v n =
     (case v of
        PStr s \<Rightarrow> Inr (PStr (concat (replicate (nat n) s)))
      | PList xs \<Rightarrow> Inr (PList (concat (replicate (nat n) xs)))
      | _ \<Rightarrow> py_arith bi (*) (*) v (PInt n))"

text \<open>
  \<^verbatim>\<open>v / n\<close> for a non-zero integer constant \<open>n\<close>: true division gives a float. The
  quotient of two integers is rounded once, and \<^verbatim>\<open>OverflowError\<close> is raised if it
  rounds to no finite double; a float is divided by the double of \<open>n\<close>.
\<close>

definition py_truediv :: "builtins \<Rightarrow> pyval \<Rightarrow> int \<Rightarrow> py_exception + rat" where
  "py_truediv bi v n =
     (case py_int v of
        Some i \<Rightarrow> if float_overflows (of_int i / of_int n) then Inl OverflowError
                  else Inr (fl bi (of_int i / of_int n))
      | None \<Rightarrow> (case v of PFloat r \<Rightarrow> Inr (fl bi (r / fl bi (of_int n)))
                 | _ \<Rightarrow> Inl TypeError))"

text \<open>\<^verbatim>\<open>sum(h.get(key, 0) for h in items)\<close>\<close>

fun py_sum_get :: "builtins \<Rightarrow> string \<Rightarrow> pyval \<Rightarrow> pyval list \<Rightarrow> py_exception + pyval" where
  "py_sum_get bi key acc [] = Inr acc"
| "py_sum_get bi key acc (h # hs) =
     bind (py_get h key (PInt 0)) (\<lambda>x.
     bind (py_add bi acc x) (\<lambda>acc'. py_sum_get bi key acc' hs))"

subsection \<open>The six evaluators\<close>

text \<open>
  Each evaluator follows its method of \<^verbatim>\<open>GreenGuardSmartContract\<close> statement by
  statement; the result is the dictionary the method returns, with its keys in the
  order of the source.
\<close>

definition greenwashing_tier ::
  "builtins \<Rightarrow> pyval \<Rightarrow> pyval \<Rightarrow> pyval \<Rightarrow> py_exception + (string list \<times> string list \<times> int)" where
  "greenwashing_tier bi company_name verification_score confidence =
     bind (py_and (py_lt verification_score 20) (py_gt confidence 80)) (\<lambda>c1.
     if c1 then
       Inr ([''IMMEDIATE_FLAG'', ''COMMUNITY_ALERT'', ''REGULATORY_NOTIFICATION''],
            [''CRITICAL: '' @ py_str bi company_name
               @ '' making potentially false environmental claims''],
            100)
     else bind (py_and (py_lt verification_score 40) (py_gt confidence 60)) (\<lambda>c2.
     if c2 then
       Inr ([''HIGH_RISK_FLAG'', ''REQUIRE_EVIDENCE''],
            [''HIGH RISK: '' @ py_str bi company_name @ '' claims require verification''],
            50)
     else bind (py_lt verification_score 60) (\<lambda>c3.
     if c3 then
       Inr ([''MODERATE_RISK_FLAG'', ''REQUEST_CLARIFICATION''],
            [''MODERATE RISK: '' @ py_str bi company_name @ '' claims need clarification''],
            25)
     else
       Inr ([''APPROVED''],
            [''VERIFIED: '' @ py_str bi company_name @ '' claims appear authentic''],
            0))))"

text \<open>\<^verbatim>\<open>[h for h in items if h.get("verification_score", 100) < 40]\<close>\<close>

fun recent_violations :: "pyval list \<Rightarrow> py_exception + pyval list" where
  "recent_violations [] = Inr []"
| "recent_violations (h # hs) =
     bind (py_get h ''verification_score'' (PInt 100)) (\<lambda>s.
     bind (py_lt s 40) (\<lambda>v.
     bind (recent_violations hs) (\<lambda>rest. Inr (if v then h # rest else rest))))"

definition repeat_offender :: "pyval \<Rightarrow> py_exception + bool" where
  "repeat_offender company_history =
     bind (py_len company_history) (\<lambda>n.
     if n > 2 then
       bind (py_last 5 company_history) (\<lambda>recent.
       bind (recent_violations recent) (\<lambda>vs. Inr (length vs \<ge> 2)))
     else Inr False)"

definition risk_assessment :: "pyval \<Rightarrow> py_exception + string" where
  "risk_assessment verification_score =
     bind (py_lt verification_score 20) (\<lambda>a.
     if a then Inr ''CRITICAL''
     else bind (py_lt verification_score 40) (\<lambda>b.
     if b then Inr ''HIGH''
     else bind (py_lt verification_score 60) (\<lambda>c.
     Inr (if c then ''MODERATE'' else ''LOW''))))"

definition greenwashing_detector_contract ::
  "builtins \<Rightarrow> pyval \<Rightarrow> pyval \<Rightarrow> py_exception + pyval" where
  "greenwashing_detector_contract bi inputs context =
     bind (py_get inputs ''company_name'' (PStr ''Unknown'')) (\<lambda>company_name.
     bind (py_get inputs ''verification_score'' (PInt 0)) (\<lambda>verification_score.
     bind (py_get inputs ''confidence'' (PInt 0)) (\<lambda>confidence.
     bind (greenwashing_tier bi company_name verification_score confidence)
       (\<lambda>(actions, alerts, penalties).
     bind (py_get context ''company_history'' (PList [])) (\<lambda>company_history.
     bind (repeat_offender company_history) (\<lambda>repeat.
     bind (risk_assessment verification_score) (\<lambda>risk.
     bind (py_lt verification_score 30) (\<lambda>review.
     Inr (PDict
       [(''contract_type'', PStr ''greenwashing_detector''),
        (''company_name'', company_name),
        (''risk_assessment'', PStr risk),
        (''actions_triggered'',
           PList (map PStr (actions @ (if repeat then [''REPEAT_OFFENDER_FLAG''] else [])))),
        (''alerts_generated'',
           PList (map PStr (alerts @ (if repeat
              then [''REPEAT OFFENDER: '' @ py_str bi company_name
                      @ '' has multiple violations'']
              else [])))),
        (''penalty_points'', PInt (penalties + (if repeat then 200 else 0))),
        (''requires_human_review'', PBool review),
        (''automated_response'', PBool True)])))))))))"

definition rewards_tier :: "pyval \<Rightarrow> py_exception + (string \<times> string)" where
  "rewards_tier total_points =
     bind (py_ge total_points 900) (\<lambda>a.
     if a then Inr (''SUSTAINABILITY_CHAMPION'', ''PLATINUM'')
     else bind (py_ge total_points 700) (\<lambda>b.
     if b then Inr (''SUSTAINABILITY_LEADER'', ''GOLD'')
     else bind (py_ge total_points 500) (\<lambda>c.
     if c then Inr (''SUSTAINABILITY_ADVOCATE'', ''SILVER'')
     else bind (py_ge total_points 300) (\<lambda>d.
     Inr (if d then (''SUSTAINABILITY_BEGINNER'', ''BRONZE'') else (''NO_BADGE'', ''NONE''))))))"

definition sustainability_rewards_contract ::
  "builtins \<Rightarrow> pyval \<Rightarrow> pyval \<Rightarrow> py_exception + pyval" where
  "sustainability_rewards_contract bi inputs context =
     bind (py_get inputs ''company_name'' (PStr ''Unknown'')) (\<lambda>company_name.
     bind (py_get inputs ''verification_score'' (PInt 0)) (\<lambda>verification_score.
     bind (py_get inputs ''transparency_level'' (PInt 0)) (\<lambda>transparency_level.
     bind (py_get inputs ''certifications'' (PList [])) (\<lambda>certifications.
     bind (py_mul bi transparency_level 20) (\<lambda>transparency_bonus.
     bind (py_len certifications) (\<lambda>n_certifications.
     bind (py_add bi verification_score transparency_bonus) (\<lambda>partial_points.
     bind (py_add bi partial_points (PInt (n_certifications * 50))) (\<lambda>total_points.
     bind (rewards_tier total_points) (\<lambda>(badge, tier).
     bind (py_ge verification_score 95) (\<lambda>excellence.
     bind (py_ge transparency_level 90) (\<lambda>openness.
     bind (py_ge total_points 500) (\<lambda>eligible.
     Inr (PDict
       [(''contract_type'', PStr ''sustainability_rewards''),
        (''company_name'', company_name),
        (''points_awarded'', total_points),
        (''badge_earned'', PStr badge),
        (''tier'', PStr tier),
        (''special_rewards'', PList (map PStr
           ((if excellence then [''TRANSPARENCY_EXCELLENCE''] else [])
            @ (if n_certifications \<ge> 5 then [''CERTIFICATION_MASTER''] else [])
            @ (if openness then [''OPENNESS_CHAMPION''] else [])))),
        (''eligible_for_promotion'', PBool eligible),
        (''next_tier_requirement'',
           if tier = ''NONE'' then PInt 300
           else if tier = ''BRONZE'' then PInt 500
           else if tier = ''SILVER'' then PInt 700
           else if tier = ''GOLD'' then PInt 900
           else PStr ''MAX_TIER'')])))))))))))))"

text \<open>
  \<^verbatim>\<open>str.lower\<close> on the code points below 256, and the substring test
  \<^verbatim>\<open>keyword in claim_text\<close>.
\<close>

definition py_lower_char :: "char \<Rightarrow> char" where
  "py_lower_char c =
     (let n = (of_char c :: nat)
      in if (65 \<le> n \<and> n \<le> 90) \<or> (192 \<le> n \<and> n \<le> 222 \<and> n \<noteq> 215)
         then char_of (n + 32) else c)"

fun py_in :: "string \<Rightarrow> string \<Rightarrow> bool" where
  "py_in k [] = (k = [])"
| "py_in k (c # cs) = (take (length k) (c # cs) = k \<or> py_in k cs)"

definition red_flag_keywords :: "string list" where
  "red_flag_keywords =
     [''100% natural'', ''completely eco-friendly'', ''totally green'',
      ''environmentally safe'', ''non-toxic'', ''chemical-free'',
      ''saves the planet'', ''carbon neutral*'', ''net zero*'']"

definition vague_terms :: "string list" where
  "vague_terms =
     [''eco-friendly'', ''green'', ''natural'', ''sustainable'',
      ''environmentally responsible'', ''clean'', ''pure'']"

definition absolute_terms :: "string list" where
  "absolute_terms = [''100%'', ''completely'', ''totally'', ''never'', ''always'']"

definition automatic_flagging_contract ::
  "builtins \<Rightarrow> pyval \<Rightarrow> pyval \<Rightarrow> py_exception + pyval" where
  "automatic_flagging_contract bi inputs context =
     bind (py_get inputs ''claim'' (PStr '''')) (\<lambda>claim.
     bind (case claim of PStr s \<Rightarrow> Inr (map py_lower_char s) | _ \<Rightarrow> Inl AttributeError)
       (\<lambda>claim_text.
     bind (py_get inputs ''company_name'' (PStr ''Unknown'')) (\<lambda>company_name.
     let red = filter (\<lambda>keyword. py_in keyword claim_text) red_flag_keywords;
         vague_count = length (filter (\<lambda>term. py_in term claim_text) vague_terms);
         absolute_count = length (filter (\<lambda>term. py_in term claim_text) absolute_terms);
         flags_triggered = map (\<lambda>keyword. ''RED_FLAG_KEYWORD: '' @ keyword) red
           @ (if vague_count \<ge> 3 then [''EXCESSIVE_VAGUE_LANGUAGE''] else [])
           @ (if absolute_count \<ge> 2 then [''ABSOLUTE_CLAIMS_WITHOUT_PROOF''] else []);
         risk_score = 30 * int (length red) + (if vague_count \<ge> 3 then 40 else 0)
           + (if absolute_count \<ge> 2 then 50 else 0);
         (action, priority) =
           (if risk_score \<ge> 100 then (''IMMEDIATE_SUSPENSION'', ''CRITICAL'')
            else if risk_score \<ge> 70 then (''REQUIRE_IMMEDIATE_VERIFICATION'', ''HIGH'')
            else if risk_score \<ge> 40 then (''REQUEST_EVIDENCE'', ''MEDIUM'')
            else (''MONITOR'', ''LOW''))
     in Inr (PDict
       [(''contract_type'', PStr ''automatic_flagging''),
        (''company_name'', company_name),
        (''flags_triggered'', PList (map PStr flags_triggered)),
        (''risk_score'', PInt risk_score),
        (''recommended_action'', PStr action),
        (''priority'', PStr priority),
        (''requires_manual_review'', PBool (risk_score \<ge> 70)),
        (''auto_flagged'', PBool (length flags_triggered > 0))]))))"

text \<open>
  In the penalty system the product \<^verbatim>\<open>penalty_points * multiplier\<close> is a float
  product of an integer from the table (doubled or not) and 1.0, 1.5, 2.0 or 3.0; all
  of these and their products are multiples of one half below 3001, which doubles
  represent exactly, so the product is the exact one. \<open>review_date\<close> is
  \<^verbatim>\<open>(datetime.utcnow() + timedelta(days=30)).isoformat()\<close>, an input.
\<close>

definition base_penalties :: "(string \<times> int) list" where
  "base_penalties = [(''LOW'', 10), (''MEDIUM'', 50), (''HIGH'', 200), (''CRITICAL'', 500)]"

definition scale_multipliers :: "(string \<times> rat) list" where
  "scale_multipliers =
     [(''LOCAL'', 1), (''REGIONAL'', 3 / 2), (''NATIONAL'', 2), (''GLOBAL'', 3)]"

definition penalty_consequences :: "int \<Rightarrow> string list" where
  "penalty_consequences penalty_points =
     (if penalty_points \<ge> 1000
      then [''PLATFORM_BAN'', ''REGULATORY_REFERRAL'', ''PUBLIC_WARNING_ISSUED'']
      else if penalty_points \<ge> 500
      then [''VERIFICATION_REQUIRED_FOR_ALL_CLAIMS'', ''MONTHLY_MONITORING'', ''PUBLIC_NOTICE'']
      else if penalty_points \<ge> 200
      then [''ENHANCED_SCRUTINY'', ''QUARTERLY_REVIEW'', ''WARNING_ISSUED'']
      else if penalty_points \<ge> 50
      then [''FORMAL_WARNING'', ''REQUIRED_TRAINING'']
      else [])"

definition penalty_system_contract ::
  "string \<Rightarrow> pyval \<Rightarrow> pyval \<Rightarrow> py_exception + pyval" where
  "penalty_system_contract review_date inputs context =
     bind (py_get inputs ''company_name'' (PStr ''Unknown'')) (\<lambda>company_name.
     bind (py_get inputs ''violation_severity'' (PStr ''LOW'')) (\<lambda>violation_severity.
     bind (py_get inputs ''repeat_offender'' (PBool False)) (\<lambda>repeat_offender.
     bind (py_get inputs ''impact_scale'' (PStr ''LOCAL'')) (\<lambda>impact_scale.
     bind (table_get base_penalties violation_severity 10) (\<lambda>base.
     bind (table_get scale_multipliers impact_scale 1) (\<lambda>multiplier.
     let doubled = (if py_truthy repeat_offender then base * 2 else base);
         penalty_points = py_int_of_float (of_int doubled * multiplier)
     in Inr (PDict
       [(''contract_type'', PStr ''penalty_system''),
        (''company_name'', company_name),
        (''penalty_points'', PInt penalty_points),
        (''consequences'', PList (map PStr (penalty_consequences penalty_points))),
        (''rehabilitation_required'', PBool (penalty_points \<ge> 200)),
        (''appeal_allowed'', PBool (penalty_points < 1000)),
        (''review_date'', PStr review_date)])))))))"

text \<open>
  In the bounty the literals 1.2 and 0.8 denote the doubles nearest to them, and each
  product is rounded; \<^verbatim>\<open>int\<close> truncates the result.
\<close>

definition base_bounties :: "(string \<times> int) list" where
  "base_bounties = [(''SIMPLE'', 10), (''MODERATE'', 25), (''COMPLEX'', 50), (''EXPERT'', 100)]"

definition speed_bonuses :: "builtins \<Rightarrow> (string \<times> rat) list" where
  "speed_bonuses bi =
     [(''INSTANT'', 3 / 2), (''FAST'', fl bi (6 / 5)), (''NORMAL'', 1), (''SLOW'', fl bi (4 / 5))]"

definition verifier_level_of :: "int \<Rightarrow> string \<times> int" where
  "verifier_level_of total_verifications =
     (if total_verifications \<ge> 100 then (''EXPERT'', 50)
      else if total_verifications \<ge> 50 then (''ADVANCED'', 25)
      else if total_verifications \<ge> 10 then (''INTERMEDIATE'', 10)
      else (''BEGINNER'', 0))"

definition verification_bounty_contract ::
  "builtins \<Rightarrow> pyval \<Rightarrow> pyval \<Rightarrow> py_exception + pyval" where
  "verification_bounty_contract bi inputs context =
     bind (py_get inputs ''verifier_email'' (PStr ''unknown'')) (\<lambda>verifier_email.
     bind (py_get inputs ''verification_quality'' (PInt 0)) (\<lambda>verification_quality.
     bind (py_get inputs ''claim_complexity'' (PStr ''SIMPLE'')) (\<lambda>claim_complexity.
     bind (py_get inputs ''verification_speed'' (PStr ''NORMAL'')) (\<lambda>verification_speed.
     bind (table_get base_bounties claim_complexity 10) (\<lambda>base_bounty.
     bind (py_truediv bi verification_quality 100) (\<lambda>quality_multiplier.
     bind (table_get (speed_bonuses bi) verification_speed 1) (\<lambda>speed_bonus.
     bind (py_get context ''verifier_history'' (PList [])) (\<lambda>verifier_history.
     bind (py_len verifier_history) (\<lambda>total_verifications.
     bind (py_iter verifier_history) (\<lambda>entries.
     bind (py_sum_get bi ''bounty'' (PInt 0) entries) (\<lambda>earned_before.
     let (verifier_level, level_bonus) = verifier_level_of total_verifications;
         final_bounty = py_int_of_float
           (fl bi (fl bi (of_int base_bounty * quality_multiplier) * speed_bonus)) + level_bonus
     in bind (py_add bi earned_before (PInt final_bounty)) (\<lambda>total_earned.
     Inr (PDict
       [(''contract_type'', PStr ''verification_bounty''),
        (''verifier_email'', verifier_email),
        (''bounty_awarded'', PInt final_bounty),
        (''verifier_level'', PStr verifier_level),
        (''quality_score'', verification_quality),
        (''total_earned'', total_earned),
        (''next_level_requirement'',
           if verifier_level = ''BEGINNER'' then PInt 10
           else if verifier_level = ''INTERMEDIATE'' then PInt 50
           else if verifier_level = ''ADVANCED'' then PInt 100
           else PStr ''MAX_LEVEL'')])))))))))))))"

definition get_transparency_recommendations :: "rat \<Rightarrow> string list" where
  "get_transparency_recommendations score =
     (if score < 90 then [''Publish detailed sustainability reports''] else [])
     @ (if score < 75 then [''Provide supply chain transparency''] else [])
     @ (if score < 60 then [''Share environmental impact data''] else [])
     @ (if score < 40 then [''Respond to verification requests promptly''] else [])
     @ (if score < 25 then [''Establish basic environmental disclosure practices''] else [])"

definition recognition_level :: "rat \<Rightarrow> string" where
  "recognition_level transparency_score =
     (if transparency_score \<ge> 90 then ''TRANSPARENCY_CHAMPION''
      else if transparency_score \<ge> 75 then ''TRANSPARENCY_LEADER''
      else if transparency_score \<ge> 60 then ''TRANSPARENCY_PRACTITIONER''
      else if transparency_score \<ge> 40 then ''TRANSPARENCY_BEGINNER''
      else ''TRANSPARENCY_NEEDED'')"

definition response_time_rating :: "pyval \<Rightarrow> py_exception + string" where
  "response_time_rating response_time =
     bind (py_lt response_time 24) (\<lambda>a.
     if a then Inr ''EXCELLENT''
     else bind (py_lt response_time 72) (\<lambda>b.
     if b then Inr ''GOOD''
     else bind (py_lt response_time 168) (\<lambda>c.
     Inr (if c then ''AVERAGE'' else ''POOR''))))"

text \<open>
  \<open>improvement\<close> is \<^verbatim>\<open>round(improvement, 2)\<close>: the integer 0 if the history has
  fewer than two entries, else a float.
\<close>

definition transparency_improvement ::
  "builtins \<Rightarrow> rat \<Rightarrow> pyval \<Rightarrow> py_exception + pyval" where
  "transparency_improvement bi transparency_score history =
     bind (py_len history) (\<lambda>n.
     if n \<ge> 2 then
       bind (py_last 3 history) (\<lambda>recent.
       bind (py_sum_get bi ''transparency_score'' (PInt 0) recent) (\<lambda>total.
       bind (py_truediv bi total (min 3 n)) (\<lambda>recent_average.
       Inr (PFloat (round2 bi (fl bi (transparency_score - recent_average)))))))
     else Inr (PInt 0))"

definition transparency_tracker_contract ::
  "builtins \<Rightarrow> pyval \<Rightarrow> pyval \<Rightarrow> py_exception + pyval" where
  "transparency_tracker_contract bi inputs context =
     bind (py_get inputs ''company_name'' (PStr ''Unknown'')) (\<lambda>company_name.
     bind (py_get inputs ''disclosed_data'' (PDict [])) (\<lambda>disclosed_data.
     bind (py_get inputs ''response_time_hours'' (PInt 999)) (\<lambda>response_time.
     bind (py_get inputs ''data_completeness'' (PInt 0)) (\<lambda>data_completeness.
     bind (py_len disclosed_data) (\<lambda>n_disclosed.
     bind (py_sub bi (PInt 100) response_time) (\<lambda>remaining.
     bind (py_gt remaining 0) (\<lambda>positive.
     bind (py_add bi (PInt (n_disclosed * 10)) (if positive then remaining else PInt 0))
       (\<lambda>partial_score.
     bind (py_add bi partial_score data_completeness) (\<lambda>score_sum.
     bind (py_truediv bi score_sum 3) (\<lambda>transparency_score.
     bind (py_get context ''transparency_history'' (PList [])) (\<lambda>history.
     bind (transparency_improvement bi transparency_score history) (\<lambda>improvement.
     bind (case disclosed_data of
             PDict kvs \<Rightarrow> Inr (PList (map (\<lambda>(k, v). PStr k) kvs))
           | _ \<Rightarrow> Inl AttributeError) (\<lambda>areas_disclosed.
     bind (response_time_rating response_time) (\<lambda>rating.
     Inr (PDict
       [(''contract_type'', PStr ''transparency_tracker''),
        (''company_name'', company_name),
        (''transparency_score'', PFloat (round2 bi transparency_score)),
        (''improvement'', improvement),
        (''recognition_level'', PStr (recognition_level transparency_score)),
        (''areas_disclosed'', areas_disclosed),
        (''response_time_rating'', PStr rating),
        (''recommended_improvements'',
           PList (map PStr (get_transparency_recommendations transparency_score)))])))))))))))))))"

subsection \<open>Contracts and their execution\<close>

datatype contract_state = PENDING | ACTIVE | EXECUTED | FAILED | SUSPENDED

datatype contract_type =
    GREENWASHING_DETECTOR
  | SUSTAINABILITY_REWARDS
  | AUTOMATIC_FLAGGING
  | PENALTY_SYSTEM
  | VERIFICATION_BOUNTY
  | TRANSPARENCY_TRACKER

fun type_value :: "contract_type \<Rightarrow> string" where
  "type_value GREENWASHING_DETECTOR = ''greenwashing_detector''"
| "type_value SUSTAINABILITY_REWARDS = ''sustainability_rewards''"
| "type_value AUTOMATIC_FLAGGING = ''automatic_flagging''"
| "type_value PENALTY_SYSTEM = ''penalty_system''"
| "type_value VERIFICATION_BOUNTY = ''verification_bounty''"
| "type_value TRANSPARENCY_TRACKER = ''transparency_tracker''"

record execution_record =
  execution_id :: string
  record_inputs :: pyval
  record_result :: pyval
  record_gas_used :: int
  record_execution_time :: rat
  record_timestamp :: string

record contract =
  contract_id :: string
  contract_type :: contract_type
  creator :: string
  parameters :: pyval
  state :: contract_state
  created_at :: rat
  executed_count :: int
  total_gas_used :: int
  execution_history :: "execution_record list"

text \<open>
  The readings of the clock during one call of \<^verbatim>\<open>execute\<close>: \<^verbatim>\<open>time.time()\<close>
  before and after the evaluator and for the execution id, and the two texts
  \<^verbatim>\<open>datetime.utcnow().isoformat()\<close> (for the record) and
  \<^verbatim>\<open>(datetime.utcnow() + timedelta(days=30)).isoformat()\<close> (in the penalty system).
\<close>

record clock =
  execution_start :: rat
  execution_end :: rat
  id_time :: rat
  utc_timestamp :: string
  review_date :: string

text \<open>What \<^verbatim>\<open>execute\<close> returns.\<close>

datatype response =
    Success (response_contract_id: string) (response_execution_id: string)
      (response_result: pyval) (response_gas_used: int) (response_execution_time: rat)
  | Failure (response_contract_id: string) (response_error: py_exception)
      (response_gas_used: int)

definition calculate_gas_usage :: "builtins \<Rightarrow> pyval \<Rightarrow> rat \<Rightarrow> int" where
  "calculate_gas_usage bi result execution_time =
     (let base_gas = 100;
          result_complexity = int (length (py_str bi result));
          complexity_gas = result_complexity div 10;
          time_gas = py_int_of_float (fl bi (execution_time * 50))
      in base_gas + complexity_gas + time_gas)"

text \<open>
  The dispatch of \<^verbatim>\<open>execute\<close>. The type has the six members of the enumeration
  and no other, so the final \<^verbatim>\<open>raise ValueError\<close> has no case here.
\<close>

fun evaluate ::
  "builtins \<Rightarrow> clock \<Rightarrow> contract_type \<Rightarrow> pyval \<Rightarrow> pyval \<Rightarrow> py_exception + pyval" where
  "evaluate bi clk GREENWASHING_DETECTOR inputs context =
     greenwashing_detector_contract bi inputs context"
| "evaluate bi clk SUSTAINABILITY_REWARDS inputs context =
     sustainability_rewards_contract bi inputs context"
| "evaluate bi clk AUTOMATIC_FLAGGING inputs context =
     automatic_flagging_contract bi inputs context"
| "evaluate bi clk PENALTY_SYSTEM inputs context =
     penalty_system_contract (review_date clk) inputs context"
| "evaluate bi clk VERIFICATION_BOUNTY inputs context =
     verification_bounty_contract bi inputs context"
| "evaluate bi clk TRANSPARENCY_TRACKER inputs context =
     transparency_tracker_contract bi inputs context"

definition execute ::
  "builtins \<Rightarrow> clock \<Rightarrow> contract \<Rightarrow> pyval \<Rightarrow> pyval \<Rightarrow> contract \<times> response" where
  "execute bi clk self inputs context =
     (case evaluate bi clk (contract_type self) inputs context of
        Inl e \<Rightarrow> (self\<lparr>state := FAILED\<rparr>, Failure (contract_id self) e 50)
      | Inr result \<Rightarrow>
          (let execution_time = fl bi (execution_end clk - execution_start clk);
               gas_used = calculate_gas_usage bi result execution_time;
               count = executed_count self + 1;
               execution_record =
                 \<lparr>execution_id = ''EXEC_'' @ show_int (py_int_of_float (id_time clk))
                                   @ ''_'' @ show_int count,
                  record_inputs = inputs, record_result = result,
                  record_gas_used = gas_used, record_execution_time = execution_time,
                  record_timestamp = utc_timestamp clk\<rparr>
           in (self\<lparr>state := EXECUTED, executed_count := count,
                     total_gas_used := total_gas_used self + gas_used,
                     execution_history := execution_history self @ [execution_record]\<rparr>,
               Success (contract_id self) (execution_id execution_record) result gas_used
                 execution_time)))"

subsection \<open>The registry\<close>

text \<open>
  \<^verbatim>\<open>SmartContractBlockchain\<close> keeps two dictionaries. A dictionary is an association
  list in insertion order; assigning to a key that is present replaces its value.
\<close>

fun dict_set :: "'k \<Rightarrow> 'v \<Rightarrow> ('k \<times> 'v) list \<Rightarrow> ('k \<times> 'v) list" where
  "dict_set k v [] = [(k, v)]"
| "dict_set k v ((k', v') # kvs) =
     (if k' = k then (k, v) # kvs else (k', v') # dict_set k v kvs)"

record registry =
  contracts :: "(string \<times> contract) list"
  contract_registry :: "(contract_type \<times> string) list"

text \<open>
  \<open>now\<close> is the reading \<^verbatim>\<open>time.time()\<close> in the contract id and \<open>created\<close> the one
  in the constructor of the contract.
\<close>

definition new_contract ::
  "string \<Rightarrow> contract_type \<Rightarrow> string \<Rightarrow> pyval \<Rightarrow> rat \<Rightarrow> contract" where
  "new_contract cid ctype creator_email params created =
     \<lparr>contract_id = cid, contract_type = ctype, creator = creator_email,
      parameters = params, state = PENDING, created_at = created,
      executed_count = 0, total_gas_used = 0, execution_history = []\<rparr>"

definition deploy_contract ::
  "rat \<Rightarrow> rat \<Rightarrow> registry \<Rightarrow> contract_type \<Rightarrow> string \<Rightarrow> pyval \<Rightarrow> registry \<times> string" where
  "deploy_contract now created reg ctype creator_email params =
     (let cid = ''SC_'' @ type_value ctype @ ''_'' @ show_int (py_int_of_float now);
          c = new_contract cid ctype creator_email params created
      in (reg\<lparr>contracts := dict_set cid c (contracts reg),
               contract_registry := dict_set ctype cid (contract_registry reg)\<rparr>,
          cid))"

text \<open>
  \<^verbatim>\<open>self.contracts[contract_id].execute(inputs, context)\<close>: the contract object is
  changed in place; a missing id raises \<^verbatim>\<open>KeyError\<close> and changes nothing.
\<close>

definition execute_contract ::
  "builtins \<Rightarrow> clock \<Rightarrow> registry \<Rightarrow> string \<Rightarrow> pyval \<Rightarrow> pyval
     \<Rightarrow> registry \<times> (py_exception + response)" where
  "execute_contract bi clk reg cid inputs context =
     (case map_of (contracts reg) cid of
        None \<Rightarrow> (reg, Inl KeyError)
      | Some c \<Rightarrow>
          (let (c', r) = execute bi clk c inputs context
           in (reg\<lparr>contracts := dict_set cid c' (contracts reg)\<rparr>, Inr r)))"

record statistics =
  total_contracts :: int
  total_executions :: int
  stats_total_gas_used :: int
  average_gas_per_execution :: pyval
  contract_types :: "string list"
  active_contracts :: int

definition get_contract_statistics :: "builtins \<Rightarrow> registry \<Rightarrow> statistics" where
  "get_contract_statistics bi reg =
     (let executions = sum_list (map (\<lambda>(cid, c). executed_count c) (contracts reg));
          gas = sum_list (map (\<lambda>(cid, c). total_gas_used c) (contracts reg))
      in \<lparr>total_contracts = int (length (contracts reg)),
          total_executions = executions,
          stats_total_gas_used = gas,
          average_gas_per_execution =
            (if executions > 0 then PFloat (fl bi (of_int gas / of_int executions))
             else PInt 0),
          contract_types = map type_value
            [GREENWASHING_DETECTOR, SUSTAINABILITY_REWARDS, AUTOMATIC_FLAGGING,
             PENALTY_SYSTEM, VERIFICATION_BOUNTY, TRANSPARENCY_TRACKER],
          active_contracts =
            int (length (filter (\<lambda>(cid, c). state c = ACTIVE) (contracts reg)))\<rparr>)"

text \<open>
  The operations on a registry, and the states it can reach from the empty registry of
  the constructor (which deploys the six default contracts through
  \<^verbatim>\<open>deploy_contract\<close>). There is no reset among them.
\<close>

datatype registry_op =
    Deploy rat rat contract_type string pyval
  | Execute clock string pyval pyval

fun apply_op :: "builtins \<Rightarrow> registry \<Rightarrow> registry_op \<Rightarrow> registry" where
  "apply_op bi reg (Deploy now created ctype creator_email params) =
     fst (deploy_contract now created reg ctype creator_email params)"
| "apply_op bi reg (Execute clk cid inputs context) =
     fst (execute_contract bi clk reg cid inputs context)"

definition empty_registry :: registry where
  "empty_registry = \<lparr>contracts = [], contract_registry = []\<rparr>"

definition run_ops :: "builtins \<Rightarrow> registry_op list \<Rightarrow> registry" where
  "run_ops bi ops = foldl (apply_op bi) empty_registry ops"

text \<open>
  \<^verbatim>\<open>_deploy_default_contracts\<close>: the six deployments that the constructor makes on
  its two empty dictionaries, as operations. \<open>now\<close> and \<open>created\<close> are the values that
  the deployments read from the clock; the six are taken to read the same ones.
\<close>

definition default_contracts :: "(contract_type \<times> pyval) list" where
  "default_contracts =
     [(GREENWASHING_DETECTOR, PDict [(''sensitivity'', PFloat (7 / 10))]),
      (SUSTAINABILITY_REWARDS, PDict [(''max_points'', PInt 1000)]),
      (AUTOMATIC_FLAGGING, PDict [(''threshold'', PInt 50)]),
      (PENALTY_SYSTEM, PDict [(''max_penalty'', PInt 1000)]),
      (VERIFICATION_BOUNTY, PDict [(''max_bounty'', PInt 200)]),
      (TRANSPARENCY_TRACKER, PDict [(''update_frequency'', PStr ''weekly'')])]"

definition deploy_default_contracts :: "rat \<Rightarrow> rat \<Rightarrow> registry_op list" where
  "deploy_default_contracts now created =
     map (\<lambda>(ctype, params). Deploy now created ctype ''system@greenguard.com'' params)
       default_contracts"

text \<open>
  A deployment that replaces no contract that has been executed: its id is not in use,
  or is the id of a contract whose count of executions is 0.
\<close>

fun harmless_op :: "registry \<Rightarrow> registry_op \<Rightarrow> bool" where
  "harmless_op reg (Deploy now created ctype creator_email params) =
     (case map_of (contracts reg)
             (''SC_'' @ type_value ctype @ ''_'' @ show_int (py_int_of_float now)) of
        None \<Rightarrow> True
      | Some c \<Rightarrow> executed_count c = 0)"
| "harmless_op reg (Execute clk cid inputs context) = True"

fun harmless_ops :: "builtins \<Rightarrow> registry \<Rightarrow> registry_op list \<Rightarrow> bool" where
  "harmless_ops bi reg [] = True"
| "harmless_ops bi reg (x # xs) =
     (harmless_op reg x \<and> harmless_ops bi (apply_op bi reg x) xs)"

subsection \<open>Instances for the examples\<close>

text \<open>
  Stand-ins for the built-in functions in the examples: values are written out by
  \<open>demo_dumps\<close> and floating-point operations are exact.
\<close>

definition demo_builtins :: builtins where
  "demo_builtins = \<lparr>py_str = demo_dumps, fl = (\<lambda>x. x), round2 = (\<lambda>x. x)\<rparr>"

definition demo_clock :: clock where
  "demo_clock = \<lparr>execution_start = 1700000000, execution_end = 1700000000 + 1 / 100,
     id_time = 1700000000, utc_timestamp = ''2023-11-14T22:13:20'',
     review_date = ''2023-12-14T22:13:20''\<rparr>"

definition demo_contract :: "contract_type \<Rightarrow> pyval \<Rightarrow> contract" where
  "demo_contract ctype params =
     new_contract (''SC_'' @ type_value ctype @ ''_1700000000'') ctype
       ''system@greenguard.com'' params 1700000000"

subsection \<open>The rules as the specification words them\<close>

text \<open>
  The tiers of the greenwashing detector and of the penalty system, written from the
  specification's table and not from the code, for comparison with the evaluators.
  \<open>field\<close> reads a key of a result dictionary.
\<close>

definition field :: "pyval \<Rightarrow> string \<Rightarrow> pyval option" where
  "field d k = (case d of PDict kvs \<Rightarrow> map_of kvs k | _ \<Rightarrow> None)"

definition spec_actions :: "rat \<Rightarrow> rat \<Rightarrow> string list" where
  "spec_actions score confidence =
     (if score < 20 \<and> confidence > 80
      then [''IMMEDIATE_FLAG'', ''COMMUNITY_ALERT'', ''REGULATORY_NOTIFICATION'']
      else if score < 40 \<and> confidence > 60 then [''HIGH_RISK_FLAG'', ''REQUIRE_EVIDENCE'']
      else if score < 60 then [''MODERATE_RISK_FLAG'', ''REQUEST_CLARIFICATION'']
      else [''APPROVED''])"

definition spec_penalty :: "rat \<Rightarrow> rat \<Rightarrow> int" where
  "spec_penalty score confidence =
     (if score < 20 \<and> confidence > 80 then 100
      else if score < 40 \<and> confidence > 60 then 50
      else if score < 60 then 25
      else 0)"

definition spec_risk :: "rat \<Rightarrow> string" where
  "spec_risk score =
     (if score < 20 then ''CRITICAL'' else if score < 40 then ''HIGH''
      else if score < 60 then ''MODERATE'' else ''LOW'')"

text \<open>
  An entry of the company history counts as a violation if its
  \<^verbatim>\<open>verification_score\<close> is a number below 40; \<open>scored\<close> entries are dictionaries
  whose score, if present, is a number.
\<close>

definition low_score :: "pyval \<Rightarrow> bool" where
  "low_score h =
     (case h of
        PDict kvs \<Rightarrow> (case map_of kvs ''verification_score'' of
                       None \<Rightarrow> False
                     | Some v \<Rightarrow> (case py_number v of None \<Rightarrow> False | Some r \<Rightarrow> r < 40))
      | _ \<Rightarrow> False)"

definition scored :: "pyval \<Rightarrow> bool" where
  "scored h =
     (case h of
        PDict kvs \<Rightarrow> (case map_of kvs ''verification_score'' of
                       None \<Rightarrow> True
                     | Some v \<Rightarrow> py_number v \<noteq> None)
      | _ \<Rightarrow> False)"

definition last5 :: "pyval list \<Rightarrow> pyval list" where
  "last5 hs = drop (length hs - 5) hs"

definition spec_base_penalty :: "string \<Rightarrow> int" where
  "spec_base_penalty severity =
     (if severity = ''LOW'' then 10 else if severity = ''MEDIUM'' then 50
      else if severity = ''HIGH'' then 200 else if severity = ''CRITICAL'' then 500
      else 10)"

definition spec_multiplier :: "string \<Rightarrow> rat" where
  "spec_multiplier scale =
     (if scale = ''LOCAL'' then 1 else if scale = ''REGIONAL'' then 3 / 2
      else if scale = ''NATIONAL'' then 2 else if scale = ''GLOBAL'' then 3
      else 1)"

definition spec_penalty_points :: "string \<Rightarrow> bool \<Rightarrow> string \<Rightarrow> int" where
  "spec_penalty_points severity repeat scale =
     \<lfloor>of_int (spec_base_penalty severity * (if repeat then 2 else 1)) * spec_multiplier scale\<rfloor>"

definition result_field :: "py_exception + pyval \<Rightarrow> string \<Rightarrow> pyval option" where
  "result_field r k = (case r of Inr d \<Rightarrow> field d k | Inl e \<Rightarrow> None)"

text \<open>Inputs and contexts of the examples.\<close>

definition critical_inputs :: pyval where
  "critical_inputs =
     PDict [(''company_name'', PStr ''Acme''), (''verification_score'', PInt 15),
            (''confidence'', PInt 85)]"

definition low_entry :: pyval where
  "low_entry = PDict [(''verification_score'', PInt 10)]"

definition history_context :: "pyval list \<Rightarrow> pyval" where
  "history_context hs = PDict [(''company_history'', PList hs)]"

definition spec_consequences :: "int \<Rightarrow> string list" where
  "spec_consequences points =
     (if points \<ge> 1000
      then [''PLATFORM_BAN'', ''REGULATORY_REFERRAL'', ''PUBLIC_WARNING_ISSUED'']
      else if points \<ge> 500
      then [''VERIFICATION_REQUIRED_FOR_ALL_CLAIMS'', ''MONTHLY_MONITORING'', ''PUBLIC_NOTICE'']
      else if points \<ge> 200
      then [''ENHANCED_SCRUTINY'', ''QUARTERLY_REVIEW'', ''WARNING_ISSUED'']
      else if points \<ge> 50
      then [''FORMAL_WARNING'', ''REQUIRED_TRAINING'']
      else [])"

definition ban_inputs :: pyval where
  "ban_inputs =
     PDict [(''company_name'', PStr ''Acme''), (''violation_severity'', PStr ''HIGH''),
            (''repeat_offender'', PBool True), (''impact_scale'', PStr ''GLOBAL'')]"

definition minor_inputs :: pyval where
  "minor_inputs =
     PDict [(''company_name'', PStr ''Acme''), (''violation_severity'', PStr ''LOW''),
            (''repeat_offender'', PBool False), (''impact_scale'', PStr ''LOCAL'')]"

text \<open>The result or the error that a response of \<^verbatim>\<open>execute\<close> carries.\<close>

definition outcome :: "response \<Rightarrow> py_exception + pyval" where
  "outcome r =
     (case r of Success cid eid result gas t \<Rightarrow> Inr result | Failure cid e gas \<Rightarrow> Inl e)"

definition bad_inputs :: pyval where
  "bad_inputs = PDict [(''company_name'', PStr ''Acme''), (''verification_score'', PStr ''high'')]"

definition ban_result :: pyval where
  "ban_result = PDict
     [(''contract_type'', PStr ''penalty_system''),
      (''company_name'', PStr ''Acme''),
      (''penalty_points'', PInt 1200),
      (''consequences'', PList [PStr ''PLATFORM_BAN'', PStr ''REGULATORY_REFERRAL'',
                               PStr ''PUBLIC_WARNING_ISSUED'']),
      (''rehabilitation_required'', PBool True),
      (''appeal_allowed'', PBool False),
      (''review_date'', PStr ''2023-12-14T22:13:20'')]"

definition ban_record :: execution_record where
  "ban_record =
     \<lparr>execution_id = ''EXEC_1700000000_1'', record_inputs = ban_inputs,
      record_result = ban_result, record_gas_used = 123, record_execution_time = 1 / 100,
      record_timestamp = ''2023-11-14T22:13:20''\<rparr>"

text \<open>
  A registry history: the constructor deploys the six default contracts, the detector is
  executed once, and the detector is then deployed again half a second after the
  constructor ran.
\<close>

definition first_ops :: "registry_op list" where
  "first_ops =
     deploy_default_contracts 1700000000 1700000000 @
     [Execute demo_clock ''SC_greenwashing_detector_1700000000'' critical_inputs (PDict [])]"

definition redeploy_op :: registry_op where
  "redeploy_op =
     Deploy (1700000000 + 1 / 2) (1700000000 + 1 / 2) GREENWASHING_DETECTOR
       ''system@greenguard.com''
       (PDict [(''sensitivity'', PFloat (7 / 10)), (''auto_flag'', PBool True)])"

section \<open>Properties of the ledger\<close>

subsection \<open>The nonce search\<close>

lemma mine_hit:
  "meets_target (block_digest sha dumps (u\<lparr>nonce := Some n\<rparr>)) \<Longrightarrow>
   mine sha dumps u n =
     Some (seal (u\<lparr>nonce := Some n\<rparr>) (block_digest sha dumps (u\<lparr>nonce := Some n\<rparr>)))"
  by (subst mine.simps) (simp add: Let_def)

lemma mine_miss:
  "\<not> meets_target (block_digest sha dumps (u\<lparr>nonce := Some n\<rparr>)) \<Longrightarrow>
   mine sha dumps u n = mine sha dumps u (n + 1)"
  by (subst mine.simps) (simp add: Let_def)

lemma sealed_from_hit:
  "meets_target (block_digest sha dumps (u\<lparr>nonce := Some n\<rparr>)) \<Longrightarrow>
   sealed_from sha dumps u n
     (seal (u\<lparr>nonce := Some n\<rparr>) (block_digest sha dumps (u\<lparr>nonce := Some n\<rparr>)))"
  unfolding sealed_from_def by (intro exI [of _ n]) auto

lemma sealed_from_miss:
  assumes "\<not> meets_target (block_digest sha dumps (u\<lparr>nonce := Some n\<rparr>))"
    and "sealed_from sha dumps u (n + 1) b"
  shows "sealed_from sha dumps u n b"
proof -
  from assms(2) obtain m where m: "n + 1 \<le> m"
    "b = seal (u\<lparr>nonce := Some m\<rparr>) (block_digest sha dumps (u\<lparr>nonce := Some m\<rparr>))"
    "meets_target (block_digest sha dumps (u\<lparr>nonce := Some m\<rparr>))"
    "\<forall>k. n + 1 \<le> k \<and> k < m \<longrightarrow>
       \<not> meets_target (block_digest sha dumps (u\<lparr>nonce := Some k\<rparr>))"
    unfolding sealed_from_def by blast
  have "\<not> meets_target (block_digest sha dumps (u\<lparr>nonce := Some k\<rparr>))"
    if "n \<le> k \<and> k < m" for k
  proof (cases "k = n")
    case True
    with assms(1) show ?thesis by simp
  next
    case False
    with that have "n + 1 \<le> k \<and> k < m" by linarith
    with m(4) show ?thesis by blast
  qed
  moreover have "n \<le> m" using m(1) by linarith
  ultimately show ?thesis unfolding sealed_from_def using m(2,3) by blast
qed

text \<open>If the loop returns, it returns the candidate sealed at the first good nonce.\<close>

lemma mine_sound: "mine sha dumps u n = Some b \<Longrightarrow> sealed_from sha dumps u n b"
proof (erule mine.raw_induct [where P = sealed_from, rotated])
  fix f :: "sha_fn \<Rightarrow> dumps_fn \<Rightarrow> unsealed \<Rightarrow> int \<Rightarrow> block option"
  fix sha dumps u n b
  assume IH: "\<And>sha dumps u n y. f sha dumps u n = Some y \<Longrightarrow> sealed_from sha dumps u n y"
  assume step: "(let block_hash = block_digest sha dumps (u\<lparr>nonce := Some n\<rparr>)
      in if meets_target block_hash
         then Some (seal (u\<lparr>nonce := Some n\<rparr>) block_hash)
         else f sha dumps u (n + 1)) = Some b"
  show "sealed_from sha dumps u n b"
  proof (cases "meets_target (block_digest sha dumps (u\<lparr>nonce := Some n\<rparr>))")
    case True
    with step have
      "b = seal (u\<lparr>nonce := Some n\<rparr>) (block_digest sha dumps (u\<lparr>nonce := Some n\<rparr>))"
      by (simp add: Let_def)
    with True show ?thesis by (simp add: sealed_from_hit)
  next
    case False
    with step have "f sha dumps u (n + 1) = Some b" by (simp add: Let_def)
    from sealed_from_miss [OF False IH [OF this]] show ?thesis .
  qed
qed

text \<open>The loop returns as soon as some nonce ahead is good.\<close>

lemma mine_total:
  "meets_target (block_digest sha dumps (u\<lparr>nonce := Some (n + int k)\<rparr>)) \<Longrightarrow>
   \<exists>b. mine sha dumps u n = Some b"
proof (induction k arbitrary: n)
  case 0
  then show ?case by (simp add: mine_hit)
next
  case (Suc k)
  show ?case
  proof (cases "meets_target (block_digest sha dumps (u\<lparr>nonce := Some n\<rparr>))")
    case True
    then show ?thesis by (simp add: mine_hit)
  next
    case False
    have "n + 1 + int k = n + int (Suc k)" by simp
    with Suc.prems have
      "meets_target (block_digest sha dumps (u\<lparr>nonce := Some (n + 1 + int k)\<rparr>))"
      by (simp only:)
    from Suc.IH [OF this] show ?thesis by (simp add: mine_miss [OF False])
  qed
qed

lemma mine_none:
  assumes "\<forall>k. \<not> meets_target (block_digest sha dumps (u\<lparr>nonce := Some (int k)\<rparr>))"
  shows "mine sha dumps u 0 = None"
proof (rule ccontr)
  assume "mine sha dumps u 0 \<noteq> None"
  then obtain b where "mine sha dumps u 0 = Some b" by auto
  from mine_sound [OF this] obtain m where "0 \<le> m"
    "meets_target (block_digest sha dumps (u\<lparr>nonce := Some m\<rparr>))"
    unfolding sealed_from_def by blast
  moreover from \<open>0 \<le> m\<close> have "m = int (nat m)" by simp
  ultimately have "meets_target (block_digest sha dumps (u\<lparr>nonce := Some (int (nat m))\<rparr>))"
    by simp
  with assms show False by blast
qed

lemma candidate_nonce [simp]: "(candidate chain now d n)\<lparr>nonce := Some m\<rparr> = candidate chain now d m"
  by (simp add: candidate_def)

lemma add_block_unfold:
  "add_block_to_simple_chain sha dumps gnow gutc now d chain =
     (case mine sha dumps (candidate (initialize_simple_blockchain sha gnow gutc chain) now d 0) 0 of
        None \<Rightarrow> None
      | Some b \<Rightarrow> Some (initialize_simple_blockchain sha gnow gutc chain @ [b],
          block_id (int (length (initialize_simple_blockchain sha gnow gutc chain))) now))"
  by (simp add: add_block_to_simple_chain_def candidate_def Let_def)

subsection \<open>The integrity check\<close>

lemma validate_from_iff:
  "validate_from sha dumps p bs \<longleftrightarrow>
     (\<forall>i<length bs. previous_hash (bs ! i) = hash ((p # bs) ! i) \<and>
        hash (bs ! i) = block_digest sha dumps (without_hash (bs ! i)))"
proof (induction bs arbitrary: p)
  case Nil
  then show ?case by simp
next
  case (Cons b bs)
  show ?case by (auto simp: Cons.IH All_less_Suc2)
qed

lemma validate_iff:
  "validate_blockchain_integrity sha dumps chain \<longleftrightarrow>
     (\<forall>i. 1 \<le> i \<and> i < length chain \<longrightarrow>
        previous_hash (chain ! i) = hash (chain ! (i - 1)) \<and>
        hash (chain ! i) = block_digest sha dumps (without_hash (chain ! i)))"
proof (cases chain)
  case Nil
  then show ?thesis by (simp add: validate_blockchain_integrity_def)
next
  case (Cons g rest)
  have "validate_blockchain_integrity sha dumps chain = validate_from sha dumps g rest"
    using Cons by (cases rest) (simp_all add: validate_blockchain_integrity_def)
  also have "\<dots> \<longleftrightarrow> (\<forall>j<length rest. previous_hash (rest ! j) = hash ((g # rest) ! j) \<and>
        hash (rest ! j) = block_digest sha dumps (without_hash (rest ! j)))"
    by (rule validate_from_iff)
  also have "\<dots> \<longleftrightarrow> (\<forall>i. 1 \<le> i \<and> i < length chain \<longrightarrow>
        previous_hash (chain ! i) = hash (chain ! (i - 1)) \<and>
        hash (chain ! i) = block_digest sha dumps (without_hash (chain ! i)))"
  proof (intro iffI allI impI)
    fix i
    assume H: "\<forall>j<length rest. previous_hash (rest ! j) = hash ((g # rest) ! j) \<and>
        hash (rest ! j) = block_digest sha dumps (without_hash (rest ! j))"
      and i: "1 \<le> i \<and> i < length chain"
    then obtain j where j: "i = Suc j" "j < length rest" using Cons by (cases i) auto
    with H have "previous_hash (rest ! j) = hash ((g # rest) ! j) \<and>
        hash (rest ! j) = block_digest sha dumps (without_hash (rest ! j))" by blast
    with j Cons show "previous_hash (chain ! i) = hash (chain ! (i - 1)) \<and>
        hash (chain ! i) = block_digest sha dumps (without_hash (chain ! i))" by simp
  next
    fix j
    assume H: "\<forall>i. 1 \<le> i \<and> i < length chain \<longrightarrow>
        previous_hash (chain ! i) = hash (chain ! (i - 1)) \<and>
        hash (chain ! i) = block_digest sha dumps (without_hash (chain ! i))"
      and j: "j < length rest"
    then have "1 \<le> Suc j \<and> Suc j < length chain" using Cons by simp
    with H have "previous_hash (chain ! Suc j) = hash (chain ! (Suc j - 1)) \<and>
        hash (chain ! Suc j) = block_digest sha dumps (without_hash (chain ! Suc j))" by blast
    with Cons show "previous_hash (rest ! j) = hash ((g # rest) ! j) \<and>
        hash (rest ! j) = block_digest sha dumps (without_hash (rest ! j))" by simp
  qed
  finally show ?thesis .
qed

lemma block_eqI:
  fixes b b' :: block
  shows "without_hash b' = without_hash b \<Longrightarrow> hash b' = hash b \<Longrightarrow> b' = b"
  by (cases b, cases b') (simp add: without_hash_def)

subsection \<open>The example chain\<close>

lemma meets_target_00: "meets_target h \<longleftrightarrow> take 2 h = ''00''"
  by (simp add: meets_target_def difficulty_def numeral_2_eq_2)

lemma demo_genesis_hash: "hash demo_genesis = ''db''"
  by (simp add: demo_genesis_def genesis_block_def demo_sha_def hex_char_def)

lemma demo_candidate_digests:
  "block_digest demo_sha demo_dumps (candidate [demo_genesis] 1700000000 demo_payload 0) = ''fc''"
  "block_digest demo_sha demo_dumps (candidate [demo_genesis] 1700000000 demo_payload 1) = ''fd''"
  "block_digest demo_sha demo_dumps (candidate [demo_genesis] 1700000000 demo_payload 2) = ''fe''"
  "block_digest demo_sha demo_dumps (candidate [demo_genesis] 1700000000 demo_payload 3) = ''ff''"
  "block_digest demo_sha demo_dumps (candidate [demo_genesis] 1700000000 demo_payload 4) = ''00''"
  by (simp_all add: block_digest_def candidate_def demo_genesis_hash demo_payload_def
      block_dict_def demo_sha_def hex_char_def show_int_def digit_char_def)

lemma demo_block_seal:
  "seal (candidate [demo_genesis] 1700000000 demo_payload 4) ''00'' = demo_block"
  by (simp add: seal_def candidate_def demo_block_def demo_genesis_hash)

lemma demo_mine:
  "mine demo_sha demo_dumps (candidate [demo_genesis] 1700000000 demo_payload 0) 0
     = Some demo_block"
proof -
  let ?u = "candidate [demo_genesis] 1700000000 demo_payload 0"
  have "mine demo_sha demo_dumps ?u 0 = mine demo_sha demo_dumps ?u 1"
    using mine_miss [where sha = demo_sha and dumps = demo_dumps and u = ?u and n = 0]
    by (simp add: demo_candidate_digests meets_target_00)
  also have "\<dots> = mine demo_sha demo_dumps ?u 2"
    using mine_miss [where sha = demo_sha and dumps = demo_dumps and u = ?u and n = 1]
    by (simp add: demo_candidate_digests meets_target_00)
  also have "\<dots> = mine demo_sha demo_dumps ?u 3"
    using mine_miss [where sha = demo_sha and dumps = demo_dumps and u = ?u and n = 2]
    by (simp add: demo_candidate_digests meets_target_00)
  also have "\<dots> = mine demo_sha demo_dumps ?u 4"
    using mine_miss [where sha = demo_sha and dumps = demo_dumps and u = ?u and n = 3]
    by (simp add: demo_candidate_digests meets_target_00)
  also have "\<dots> = Some demo_block"
    using mine_hit [where sha = demo_sha and dumps = demo_dumps and u = ?u and n = 4]
    by (simp add: demo_candidate_digests meets_target_00 demo_block_seal)
  finally show ?thesis .
qed

lemma demo_add_block:
  "add_block_to_simple_chain demo_sha demo_dumps 1700000000 ''2023-11-14T22:13:20''
     1700000000 demo_payload [demo_genesis] = Some (demo_chain, ''BLOCK_1_1700000000'')"
  by (simp add: add_block_unfold initialize_simple_blockchain_def demo_mine demo_chain_def
      block_id_def show_int_def py_int_of_float_def digit_char_def)

lemma demo_block_digest:
  "block_digest demo_sha demo_dumps (without_hash demo_block) = ''00''"
  "block_digest demo_sha demo_dumps (without_hash tampered_block) = ''62''"
  by (simp_all add: block_digest_def without_hash_def demo_block_def tampered_block_def
      demo_payload_def block_dict_def demo_sha_def hex_char_def show_int_def digit_char_def)

lemma demo_chain_valid: "validate_blockchain_integrity demo_sha demo_dumps demo_chain"
  by (simp add: validate_blockchain_integrity_def demo_chain_def demo_block_digest
      demo_genesis_hash) (simp add: demo_block_def)

subsection \<open>Claim C1: the integrity check and tampering\<close>

lemma tamper_block_detected:
  assumes v: "validate_blockchain_integrity sha dumps chain"
    and i: "1 \<le> i" "i < length chain"
    and ne: "b' \<noteq> chain ! i"
    and one: "hash b' = hash (chain ! i) \<or> without_hash b' = without_hash (chain ! i)"
    and nocoll: "previous_hash b' = previous_hash (chain ! i) \<and>
        without_hash b' \<noteq> without_hash (chain ! i) \<longrightarrow>
        block_digest sha dumps (without_hash b') \<noteq>
        block_digest sha dumps (without_hash (chain ! i))"
  shows "\<not> validate_blockchain_integrity sha dumps (chain[i := b'])"
proof
  assume v': "validate_blockchain_integrity sha dumps (chain[i := b'])"
  from v i have old: "previous_hash (chain ! i) = hash (chain ! (i - 1))"
    "hash (chain ! i) = block_digest sha dumps (without_hash (chain ! i))"
    by (simp_all add: validate_iff)
  from v' have "\<forall>k. 1 \<le> k \<and> k < length (chain[i := b']) \<longrightarrow>
      previous_hash (chain[i := b'] ! k) = hash (chain[i := b'] ! (k - 1)) \<and>
      hash (chain[i := b'] ! k) = block_digest sha dumps (without_hash (chain[i := b'] ! k))"
    by (simp only: validate_iff)
  moreover from i have "1 \<le> i \<and> i < length (chain[i := b'])" by simp
  ultimately have "previous_hash (chain[i := b'] ! i) = hash (chain[i := b'] ! (i - 1)) \<and>
      hash (chain[i := b'] ! i) = block_digest sha dumps (without_hash (chain[i := b'] ! i))"
    by blast
  moreover from i have "chain[i := b'] ! i = b'" "chain[i := b'] ! (i - 1) = chain ! (i - 1)"
    by simp_all
  ultimately have new: "previous_hash b' = hash (chain ! (i - 1))"
    "hash b' = block_digest sha dumps (without_hash b')"
    by simp_all
  show False
  proof (cases "without_hash b' = without_hash (chain ! i)")
    case True
    with old(2) new(2) have "hash b' = hash (chain ! i)" by simp
    with True ne show False by (simp add: block_eqI)
  next
    case False
    with one have "hash b' = hash (chain ! i)" by simp
    with old(2) new(2) have "block_digest sha dumps (without_hash b') =
        block_digest sha dumps (without_hash (chain ! i))" by simp
    moreover from old(1) new(1) have "previous_hash b' = previous_hash (chain ! i)" by simp
    ultimately show False using nocoll False by simp
  qed
qed

lemma tamper_genesis_hash_detected:
  assumes v: "validate_blockchain_integrity sha dumps chain"
    and len: "2 \<le> length chain"
    and ne: "hash g' \<noteq> hash (chain ! 0)"
  shows "\<not> validate_blockchain_integrity sha dumps (chain[0 := g'])"
proof
  assume v': "validate_blockchain_integrity sha dumps (chain[0 := g'])"
  from v len have "previous_hash (chain ! 1) = hash (chain ! 0)"
    by (simp add: validate_iff)
  from v' have "\<forall>k. 1 \<le> k \<and> k < length (chain[0 := g']) \<longrightarrow>
      previous_hash (chain[0 := g'] ! k) = hash (chain[0 := g'] ! (k - 1)) \<and>
      hash (chain[0 := g'] ! k) = block_digest sha dumps (without_hash (chain[0 := g'] ! k))"
    by (simp only: validate_iff)
  moreover from len have "(1::nat) \<le> 1 \<and> 1 < length (chain[0 := g'])" by simp
  ultimately have "previous_hash (chain[0 := g'] ! 1) = hash (chain[0 := g'] ! (1 - 1))"
    by blast
  moreover from len have "chain \<noteq> []" by auto
  then have "chain[0 := g'] ! 0 = g'" by simp
  ultimately have "previous_hash (chain ! 1) = hash g'" by simp
  moreover note \<open>previous_hash (chain ! 1) = hash (chain ! 0)\<close>
  ultimately show False using ne by simp
qed

text \<open>
  Claim C1, as amended. \<^verbatim>\<open>_validate_blockchain_integrity\<close> returns true on a chain of
  0 or 1 blocks; on every chain it returns true exactly if every block at an index
  \<open>i > 0\<close> has \<open>previous_hash\<close> equal to the hash of block \<open>i - 1\<close> and a stored hash
  equal to the digest of its other fields. On a chain that verifies, replacing a block
  at an index \<open>i > 0\<close> by one that differs from it either in the stored hash alone or
  in other fields alone makes the check fail, provided that a change of the fields other
  than \<open>previous_hash\<close> changes the digest; replacing the hash of the genesis block makes
  the check fail if the chain has at least two blocks. The other fields of the genesis
  block are not covered by the check.
\<close>

theorem validate_integrity_tamper_detection:
  "(length chain \<le> 1 \<longrightarrow> validate_blockchain_integrity sha dumps chain) \<and>
   (validate_blockchain_integrity sha dumps chain \<longleftrightarrow>
      (\<forall>i. 1 \<le> i \<and> i < length chain \<longrightarrow>
         previous_hash (chain ! i) = hash (chain ! (i - 1)) \<and>
         hash (chain ! i) = block_digest sha dumps (without_hash (chain ! i)))) \<and>
   (validate_blockchain_integrity sha dumps chain \<and> 1 \<le> i \<and> i < length chain \<and>
      b' \<noteq> chain ! i \<and>
      (hash b' = hash (chain ! i) \<or> without_hash b' = without_hash (chain ! i)) \<and>
      (previous_hash b' = previous_hash (chain ! i) \<and>
         without_hash b' \<noteq> without_hash (chain ! i) \<longrightarrow>
         block_digest sha dumps (without_hash b') \<noteq>
         block_digest sha dumps (without_hash (chain ! i)))
      \<longrightarrow> \<not> validate_blockchain_integrity sha dumps (chain[i := b'])) \<and>
   (validate_blockchain_integrity sha dumps chain \<and> 2 \<le> length chain \<and>
      hash g' \<noteq> hash (chain ! 0)
      \<longrightarrow> \<not> validate_blockchain_integrity sha dumps (chain[0 := g']))"
proof (intro conjI impI)
  assume "length chain \<le> 1"
  then show "validate_blockchain_integrity sha dumps chain"
    by (simp add: validate_blockchain_integrity_def)
next
  show "validate_blockchain_integrity sha dumps chain \<longleftrightarrow>
      (\<forall>i. 1 \<le> i \<and> i < length chain \<longrightarrow>
         previous_hash (chain ! i) = hash (chain ! (i - 1)) \<and>
         hash (chain ! i) = block_digest sha dumps (without_hash (chain ! i)))"
    by (rule validate_iff)
next
  assume "validate_blockchain_integrity sha dumps chain \<and> 1 \<le> i \<and> i < length chain \<and>
      b' \<noteq> chain ! i \<and>
      (hash b' = hash (chain ! i) \<or> without_hash b' = without_hash (chain ! i)) \<and>
      (previous_hash b' = previous_hash (chain ! i) \<and>
         without_hash b' \<noteq> without_hash (chain ! i) \<longrightarrow>
         block_digest sha dumps (without_hash b') \<noteq>
         block_digest sha dumps (without_hash (chain ! i)))"
  then show "\<not> validate_blockchain_integrity sha dumps (chain[i := b'])"
    using tamper_block_detected [of sha dumps chain i b'] by blast
next
  assume "validate_blockchain_integrity sha dumps chain \<and> 2 \<le> length chain \<and>
      hash g' \<noteq> hash (chain ! 0)"
  then show "\<not> validate_blockchain_integrity sha dumps (chain[0 := g'])"
    using tamper_genesis_hash_detected [of sha dumps chain g'] by blast
qed

theorem validate_integrity_tamper_detection_witness:
  "validate_blockchain_integrity demo_sha demo_dumps demo_chain \<and>
   (1::nat) \<le> 1 \<and> 1 < length demo_chain \<and> 2 \<le> length demo_chain \<and>
   tampered_block \<noteq> demo_chain ! 1 \<and>
   hash tampered_block = hash (demo_chain ! 1) \<and>
   block_digest demo_sha demo_dumps (without_hash tampered_block) \<noteq>
     block_digest demo_sha demo_dumps (without_hash (demo_chain ! 1)) \<and>
   hash (demo_genesis\<lparr>hash := ''ff''\<rparr>) \<noteq> hash (demo_chain ! 0) \<and>
   \<not> validate_blockchain_integrity demo_sha demo_dumps (demo_chain[1 := tampered_block]) \<and>
   \<not> validate_blockchain_integrity demo_sha demo_dumps
       (demo_chain[0 := demo_genesis\<lparr>hash := ''ff''\<rparr>])"
proof -
  have ne: "tampered_block \<noteq> demo_chain ! 1"
    by (simp add: demo_chain_def tampered_block_def demo_block_def demo_payload_def)
  have h: "hash tampered_block = hash (demo_chain ! 1)"
    by (simp add: demo_chain_def tampered_block_def)
  have d: "block_digest demo_sha demo_dumps (without_hash tampered_block) \<noteq>
     block_digest demo_sha demo_dumps (without_hash (demo_chain ! 1))"
    by (simp add: demo_chain_def demo_block_digest)
  have g: "hash (demo_genesis\<lparr>hash := ''ff''\<rparr>) \<noteq> hash (demo_chain ! 0)"
    by (simp add: demo_chain_def demo_genesis_hash)
  have l: "length demo_chain = 2" by (simp add: demo_chain_def)
  show ?thesis
    using validate_integrity_tamper_detection [of demo_chain demo_sha demo_dumps 1
        tampered_block "demo_genesis\<lparr>hash := ''ff''\<rparr>"]
      demo_chain_valid ne h d g l
    by simp
qed

text \<open>
  Claim C1 as stated fails: the chain of the genesis block and one sealed block verifies,
  and it still verifies after the payload of the genesis block has been replaced.
\<close>

theorem genesis_tampering_not_detected:
  "validate_blockchain_integrity demo_sha demo_dumps demo_chain \<and>
   tampered_genesis \<noteq> demo_chain ! 0 \<and>
   validate_blockchain_integrity demo_sha demo_dumps (demo_chain[0 := tampered_genesis])"
proof -
  have "tampered_genesis \<noteq> demo_chain ! 0"
    by (simp add: demo_chain_def tampered_genesis_def demo_genesis_def genesis_block_def)
  moreover have "validate_blockchain_integrity demo_sha demo_dumps (demo_chain[0 := tampered_genesis])"
    by (simp add: validate_blockchain_integrity_def demo_chain_def demo_block_digest
        tampered_genesis_def demo_genesis_hash) (simp add: demo_block_def)
  ultimately show ?thesis using demo_chain_valid by simp
qed

subsection \<open>Claim C2: which blocks are sealed\<close>

lemma initialize_nonempty:
  "chain \<noteq> [] \<Longrightarrow> initialize_simple_blockchain sha now utc chain = chain"
  by (simp add: initialize_simple_blockchain_def)

lemma add_block_result:
  assumes "add_block_to_simple_chain sha dumps gnow gutc now d chain = Some (chain', bid)"
  shows "\<exists>b. chain' = initialize_simple_blockchain sha gnow gutc chain @ [b] \<and>
           sealed_from sha dumps
             (candidate (initialize_simple_blockchain sha gnow gutc chain) now d 0) 0 b"
    and "bid = block_id (int (length (initialize_simple_blockchain sha gnow gutc chain))) now"
  using assms by (auto simp: add_block_unfold split: option.splits dest: mine_sound)

lemma sealed_from_hash:
  assumes "sealed_from sha dumps u n b"
  shows "hash b = block_digest sha dumps (without_hash b) \<and> meets_target (hash b)"
proof -
  from assms obtain m where
    "b = seal (u\<lparr>nonce := Some m\<rparr>) (block_digest sha dumps (u\<lparr>nonce := Some m\<rparr>))"
    "meets_target (block_digest sha dumps (u\<lparr>nonce := Some m\<rparr>))"
    unfolding sealed_from_def by blast
  moreover have "without_hash (seal v h) = v" "hash (seal v h) = h" for v h
    by (simp_all add: without_hash_def seal_def)
  ultimately show ?thesis by simp
qed

text \<open>
  Claim C2, as amended. In every chain the module can hold, each block at an index
  \<open>i > 0\<close> (each block appended by \<^verbatim>\<open>_add_block_to_simple_chain\<close>) has a stored hash
  equal to the digest of its other fields, and that hash starts with two characters
  \<^verbatim>\<open>0\<close>. The genesis block at index 0 stores the digest of the fixed string
  \<^verbatim>\<open>greenguard_genesis_block\<close> instead.
\<close>

theorem appended_blocks_sealed:
  assumes "reachable sha dumps chain"
  shows "chain \<noteq> [] \<and> hash (chain ! 0) = sha ''greenguard_genesis_block'' \<and>
    (\<forall>i. 1 \<le> i \<and> i < length chain \<longrightarrow>
       hash (chain ! i) = block_digest sha dumps (without_hash (chain ! i)) \<and>
       meets_target (hash (chain ! i)))"
  using assms
proof (induction rule: reachable.induct)
  case (start now utc)
  show ?case by (simp add: initialize_simple_blockchain_def genesis_block_def)
next
  case (add chain gnow gutc now d chain' bid)
  from add.IH have ne: "chain \<noteq> []" by simp
  from add_block_result(1) [OF add.hyps(2)] ne obtain b where
    b: "chain' = chain @ [b]" "sealed_from sha dumps (candidate chain now d 0) 0 b"
    by (auto simp: initialize_nonempty)
  have "hash (chain' ! i) = block_digest sha dumps (without_hash (chain' ! i)) \<and>
       meets_target (hash (chain' ! i))" if "1 \<le> i \<and> i < length chain'" for i
  proof (cases "i < length chain")
    case True
    with that add.IH have A: "hash (chain ! i) = block_digest sha dumps (without_hash (chain ! i))"
      and B: "meets_target (hash (chain ! i))" by blast+
    from True b(1) have C: "chain' ! i = chain ! i" by (simp add: nth_append)
    show ?thesis unfolding C by (intro conjI) (rule A, rule B)
  next
    case False
    with that b(1) have C: "chain' ! i = b" by (simp add: nth_append less_Suc_eq)
    show ?thesis unfolding C by (rule sealed_from_hash [OF b(2)])
  qed
  moreover from ne b(1) add.IH have "chain' \<noteq> [] \<and> hash (chain' ! 0) = sha ''greenguard_genesis_block''"
    by (simp add: nth_append)
  ultimately show ?case by blast
qed

lemma demo_chain_reachable: "reachable demo_sha demo_dumps demo_chain"
proof -
  have "reachable demo_sha demo_dumps
      (initialize_simple_blockchain demo_sha 1700000000 ''2023-11-14T22:13:20'' [])"
    by (rule reachable.start)
  then have "reachable demo_sha demo_dumps [demo_genesis]"
    by (simp add: initialize_simple_blockchain_def demo_genesis_def)
  from reachable.add [OF this demo_add_block] show ?thesis .
qed

theorem appended_blocks_sealed_witness:
  "reachable demo_sha demo_dumps demo_chain \<and> (1::nat) \<le> 1 \<and> 1 < length demo_chain \<and>
   hash (demo_chain ! 1) = block_digest demo_sha demo_dumps (without_hash (demo_chain ! 1)) \<and>
   meets_target (hash (demo_chain ! 1))"
proof -
  have "(1::nat) \<le> 1 \<and> 1 < length demo_chain" by (simp add: demo_chain_def)
  with appended_blocks_sealed [OF demo_chain_reachable] demo_chain_reachable
  show ?thesis by blast
qed

text \<open>
  Claim C2 as stated fails at the genesis block: the chain holding only the genesis block
  is one the module can hold, and the stored hash of that block neither starts with two
  characters \<^verbatim>\<open>0\<close> nor is the digest of the block's other fields.
\<close>

theorem genesis_hash_not_sealed:
  "reachable demo_sha demo_dumps [demo_genesis] \<and>
   \<not> meets_target (hash ([demo_genesis] ! 0)) \<and>
   hash ([demo_genesis] ! 0) \<noteq>
     block_digest demo_sha demo_dumps (without_hash ([demo_genesis] ! 0))"
proof -
  have "reachable demo_sha demo_dumps
      (initialize_simple_blockchain demo_sha 1700000000 ''2023-11-14T22:13:20'' [])"
    by (rule reachable.start)
  then have "reachable demo_sha demo_dumps [demo_genesis]"
    by (simp add: initialize_simple_blockchain_def demo_genesis_def)
  moreover have "\<not> meets_target (hash demo_genesis)"
    by (simp add: demo_genesis_hash meets_target_00)
  moreover have "block_digest demo_sha demo_dumps (without_hash demo_genesis) = ''b5''"
    by (simp add: block_digest_def without_hash_def demo_genesis_def genesis_block_def
        block_dict_def demo_sha_def hex_char_def show_int_def digit_char_def)
  ultimately show ?thesis by (simp add: demo_genesis_hash)
qed

subsection \<open>Claim C3: the nonce search has no bound\<close>

text \<open>
  Claim C3, as amended. \<^verbatim>\<open>_add_block_to_simple_chain\<close> takes the payload and nothing
  else: there is no bound on the search and no failure result. A call that returns has
  appended exactly one block, the candidate sealed at the first nonce from 0 on whose
  digest starts with two characters \<^verbatim>\<open>0\<close>, and returns that block's id; the call
  returns if some nonce is good, and does not return if none is.
\<close>

theorem add_block_search_unbounded:
  "(add_block_to_simple_chain sha dumps gnow gutc now d chain = Some (chain', bid) \<longrightarrow>
      (\<exists>b. chain' = initialize_simple_blockchain sha gnow gutc chain @ [b] \<and>
         sealed_from sha dumps
           (candidate (initialize_simple_blockchain sha gnow gutc chain) now d 0) 0 b) \<and>
      bid = block_id (int (length (initialize_simple_blockchain sha gnow gutc chain))) now) \<and>
   ((\<exists>k. meets_target (block_digest sha dumps
        (candidate (initialize_simple_blockchain sha gnow gutc chain) now d (int k)))) \<longrightarrow>
      add_block_to_simple_chain sha dumps gnow gutc now d chain \<noteq> None) \<and>
   ((\<forall>k. \<not> meets_target (block_digest sha dumps
        (candidate (initialize_simple_blockchain sha gnow gutc chain) now d (int k)))) \<longrightarrow>
      add_block_to_simple_chain sha dumps gnow gutc now d chain = None)"
proof (intro conjI impI)
  assume "add_block_to_simple_chain sha dumps gnow gutc now d chain = Some (chain', bid)"
  from add_block_result [OF this]
  show "\<exists>b. chain' = initialize_simple_blockchain sha gnow gutc chain @ [b] \<and>
         sealed_from sha dumps
           (candidate (initialize_simple_blockchain sha gnow gutc chain) now d 0) 0 b"
    and "bid = block_id (int (length (initialize_simple_blockchain sha gnow gutc chain))) now"
    by blast+
next
  let ?u = "candidate (initialize_simple_blockchain sha gnow gutc chain) now d 0"
  assume "\<exists>k. meets_target (block_digest sha dumps
        (candidate (initialize_simple_blockchain sha gnow gutc chain) now d (int k)))"
  then obtain k where "meets_target (block_digest sha dumps (?u\<lparr>nonce := Some (0 + int k)\<rparr>))"
    by auto
  from mine_total [OF this] obtain b where "mine sha dumps ?u 0 = Some b" by blast
  then show "add_block_to_simple_chain sha dumps gnow gutc now d chain \<noteq> None"
    by (simp add: add_block_unfold)
next
  let ?u = "candidate (initialize_simple_blockchain sha gnow gutc chain) now d 0"
  assume "\<forall>k. \<not> meets_target (block_digest sha dumps
        (candidate (initialize_simple_blockchain sha gnow gutc chain) now d (int k)))"
  then have "\<forall>k. \<not> meets_target (block_digest sha dumps (?u\<lparr>nonce := Some (int k)\<rparr>))"
    by simp
  from mine_none [OF this]
  show "add_block_to_simple_chain sha dumps gnow gutc now d chain = None"
    by (simp add: add_block_unfold)
qed

theorem add_block_search_unbounded_witness:
  "add_block_to_simple_chain demo_sha demo_dumps 1700000000 ''2023-11-14T22:13:20''
     1700000000 demo_payload [demo_genesis] = Some (demo_chain, ''BLOCK_1_1700000000'') \<and>
   meets_target (block_digest demo_sha demo_dumps (candidate
     (initialize_simple_blockchain demo_sha 1700000000 ''2023-11-14T22:13:20'' [demo_genesis])
     1700000000 demo_payload (int 4))) \<and>
   (\<exists>b. demo_chain = [demo_genesis] @ [b] \<and>
      sealed_from demo_sha demo_dumps (candidate [demo_genesis] 1700000000 demo_payload 0) 0 b) \<and>
   \<not> (\<forall>k. \<not> meets_target (block_digest demo_sha demo_dumps (candidate
     (initialize_simple_blockchain demo_sha 1700000000 ''2023-11-14T22:13:20'' [demo_genesis])
     1700000000 demo_payload (int k))))"
proof -
  have m: "meets_target (block_digest demo_sha demo_dumps (candidate
     (initialize_simple_blockchain demo_sha 1700000000 ''2023-11-14T22:13:20'' [demo_genesis])
     1700000000 demo_payload (int 4)))"
    by (simp add: initialize_simple_blockchain_def demo_candidate_digests meets_target_00)
  then have "\<not> (\<forall>k. \<not> meets_target (block_digest demo_sha demo_dumps (candidate
     (initialize_simple_blockchain demo_sha 1700000000 ''2023-11-14T22:13:20'' [demo_genesis])
     1700000000 demo_payload (int k))))"
    by blast
  with m show ?thesis
    using add_block_search_unbounded [of demo_sha demo_dumps 1700000000
        "''2023-11-14T22:13:20''" 1700000000 demo_payload "[demo_genesis]" demo_chain
        "''BLOCK_1_1700000000''"] demo_add_block
    by (simp add: initialize_simple_blockchain_def)
qed

text \<open>
  Claim C3 as stated fails: the search for the example payload rejects the nonces 0 to 3,
  so four iterations are not enough, and the call goes on, appends the block sealed at
  nonce 4 and returns its id; no bound stops it and no failure is returned.
\<close>

theorem add_block_no_timeout:
  "\<not> meets_target (block_digest demo_sha demo_dumps
       (candidate [demo_genesis] 1700000000 demo_payload 0)) \<and>
   \<not> meets_target (block_digest demo_sha demo_dumps
       (candidate [demo_genesis] 1700000000 demo_payload 1)) \<and>
   \<not> meets_target (block_digest demo_sha demo_dumps
       (candidate [demo_genesis] 1700000000 demo_payload 2)) \<and>
   \<not> meets_target (block_digest demo_sha demo_dumps
       (candidate [demo_genesis] 1700000000 demo_payload 3)) \<and>
   add_block_to_simple_chain demo_sha demo_dumps 1700000000 ''2023-11-14T22:13:20''
     1700000000 demo_payload [demo_genesis]
     = Some ([demo_genesis, demo_block], ''BLOCK_1_1700000000'') \<and>
   nonce demo_block = Some 4"
  using demo_add_block
  by (simp add: demo_candidate_digests meets_target_00 demo_chain_def demo_block_def)

section \<open>Properties of the contract engine\<close>

subsection \<open>Comparisons on numbers\<close>

lemma py_lt_number: "py_number v = Some r \<Longrightarrow> py_lt v n = Inr (r < of_int n)"
  by (simp add: py_lt_def)

lemma py_gt_number: "py_number v = Some r \<Longrightarrow> py_gt v n = Inr (r > of_int n)"
  by (simp add: py_gt_def)

lemma py_ge_number: "py_number v = Some r \<Longrightarrow> py_ge v n = Inr (r \<ge> of_int n)"
  by (simp add: py_ge_def)

lemma bind_Inr [simp]: "bind (Inr x) f = f x"
  by (simp add: bind_def)

lemma bind_Inl [simp]: "bind (Inl e) f = Inl e"
  by (simp add: bind_def)

subsection \<open>The greenwashing detector\<close>

lemma greenwashing_tier_number:
  assumes "py_number sv = Some score" "py_number cv = Some confidence"
  shows "\<exists>alerts. greenwashing_tier bi name sv cv =
           Inr (spec_actions score confidence, alerts, spec_penalty score confidence)"
  using assms
  by (simp add: greenwashing_tier_def py_and_def py_lt_number py_gt_number
      spec_actions_def spec_penalty_def)

lemma risk_assessment_number:
  "py_number sv = Some score \<Longrightarrow> risk_assessment sv = Inr (spec_risk score)"
  by (simp add: risk_assessment_def py_lt_number spec_risk_def)

lemma greenwashing_result:
  assumes "py_get inputs ''company_name'' (PStr ''Unknown'') = Inr name"
    and "py_get inputs ''verification_score'' (PInt 0) = Inr sv"
    and "py_number sv = Some score"
    and "py_get inputs ''confidence'' (PInt 0) = Inr cv"
    and "py_number cv = Some confidence"
    and "py_get context ''company_history'' (PList []) = Inr history"
    and "repeat_offender history = Inr rep"
  shows "\<exists>result. greenwashing_detector_contract bi inputs context = Inr result \<and>
      field result ''actions_triggered'' = Some (PList (map PStr
        (spec_actions score confidence @ (if rep then [''REPEAT_OFFENDER_FLAG''] else [])))) \<and>
      field result ''penalty_points'' =
        Some (PInt (spec_penalty score confidence + (if rep then 200 else 0))) \<and>
      field result ''risk_assessment'' = Some (PStr (spec_risk score)) \<and>
      field result ''requires_human_review'' = Some (PBool (score < 30))"
proof -
  from greenwashing_tier_number [OF assms(3) assms(5)] obtain alerts where
    "greenwashing_tier bi name sv cv =
       Inr (spec_actions score confidence, alerts, spec_penalty score confidence)"
    by blast
  then show ?thesis
    using assms
    by (simp add: greenwashing_detector_contract_def risk_assessment_number py_lt_number
        field_def)
qed

lemma recent_violations_scored:
  "\<forall>h\<in>set hs. scored h \<Longrightarrow> recent_violations hs = Inr (filter low_score hs)"
proof (induction hs)
  case Nil
  then show ?case by simp
next
  case (Cons h hs)
  from Cons.prems have "scored h" by simp
  then obtain kvs where h: "h = PDict kvs"
    by (cases h) (simp_all add: scored_def)
  show ?case
  proof (cases "map_of kvs ''verification_score''")
    case None
    with h Cons show ?thesis
      by (simp add: py_get_def py_lt_def low_score_def)
  next
    case (Some v)
    with \<open>scored h\<close> h obtain r where "py_number v = Some r"
      by (auto simp: scored_def)
    with h Some Cons show ?thesis
      by (simp add: py_get_def py_lt_def low_score_def)
  qed
qed

lemma repeat_offender_list:
  assumes "\<forall>h\<in>set (last5 hs). scored h"
  shows "repeat_offender (PList hs) =
           Inr (length hs > 2 \<and> length (filter low_score (last5 hs)) \<ge> 2)"
  using recent_violations_scored [OF assms]
  by (simp add: repeat_offender_def last5_def)

lemma greenwashing_fields:
  assumes "py_get inputs ''company_name'' (PStr ''Unknown'') = Inr name"
    and "py_get inputs ''verification_score'' (PInt 0) = Inr sv"
    and "py_number sv = Some score"
    and "py_get inputs ''confidence'' (PInt 0) = Inr cv"
    and "py_number cv = Some confidence"
    and "py_get context ''company_history'' (PList []) = Inr history"
    and "repeat_offender history = Inr rep"
  shows "result_field (greenwashing_detector_contract bi inputs context) ''actions_triggered''
      = Some (PList (map PStr
          (spec_actions score confidence @ (if rep then [''REPEAT_OFFENDER_FLAG''] else []))))"
    and "result_field (greenwashing_detector_contract bi inputs context) ''penalty_points''
      = Some (PInt (spec_penalty score confidence + (if rep then 200 else 0)))"
    and "result_field (greenwashing_detector_contract bi inputs context) ''risk_assessment''
      = Some (PStr (spec_risk score))"
    and "result_field (greenwashing_detector_contract bi inputs context)
        ''requires_human_review'' = Some (PBool (score < 30))"
  using greenwashing_result [OF assms, of bi]
  by (auto simp: result_field_def)

lemma critical_inputs_get:
  "py_get critical_inputs ''company_name'' (PStr ''Unknown'') = Inr (PStr ''Acme'')"
  "py_get critical_inputs ''verification_score'' (PInt 0) = Inr (PInt 15)"
  "py_get critical_inputs ''confidence'' (PInt 0) = Inr (PInt 85)"
  "py_get (history_context hs) ''company_history'' (PList []) = Inr (PList hs)"
  "py_get (PDict []) ''company_history'' (PList []) = Inr (PList [])"
  by (simp_all add: critical_inputs_def history_context_def py_get_def)

lemma low_entry_facts: "scored low_entry" "low_score low_entry"
  by (simp_all add: scored_def low_score_def low_entry_def)

text \<open>
  Claim C4, as amended. For every input whose score and confidence are numbers: the
  triggered actions and the penalty points are those of the tier (score below 20 and
  confidence above 80: the three flags and 100; else score below 40 and confidence above
  60: two flags and 50; else score below 60: two flags and 25; else APPROVED and 0),
  followed by REPEAT_OFFENDER_FLAG and increased by 200 when the repeat-offender rule
  applies; the risk assessment follows the score alone, and a human review is required
  exactly if the score is below 30.
\<close>

theorem greenwashing_detector_tiers:
  assumes "py_get inputs ''company_name'' (PStr ''Unknown'') = Inr name"
    and "py_get inputs ''verification_score'' (PInt 0) = Inr sv"
    and "py_number sv = Some score"
    and "py_get inputs ''confidence'' (PInt 0) = Inr cv"
    and "py_number cv = Some confidence"
    and "py_get context ''company_history'' (PList []) = Inr history"
    and "repeat_offender history = Inr rep"
  shows "result_field (greenwashing_detector_contract bi inputs context) ''actions_triggered''
      = Some (PList (map PStr
          (spec_actions score confidence @ (if rep then [''REPEAT_OFFENDER_FLAG''] else [])))) \<and>
    result_field (greenwashing_detector_contract bi inputs context) ''penalty_points''
      = Some (PInt (spec_penalty score confidence + (if rep then 200 else 0))) \<and>
    result_field (greenwashing_detector_contract bi inputs context) ''risk_assessment''
      = Some (PStr (spec_risk score)) \<and>
    result_field (greenwashing_detector_contract bi inputs context) ''requires_human_review''
      = Some (PBool (score < 30))"
  using greenwashing_fields [OF assms, of bi] by simp

text \<open>The instance of the specification: score 15, confidence 85, no history.\<close>

theorem greenwashing_detector_tiers_witness:
  "result_field (greenwashing_detector_contract demo_builtins critical_inputs (PDict []))
      ''actions_triggered''
      = Some (PList [PStr ''IMMEDIATE_FLAG'', PStr ''COMMUNITY_ALERT'',
                     PStr ''REGULATORY_NOTIFICATION'']) \<and>
   result_field (greenwashing_detector_contract demo_builtins critical_inputs (PDict []))
      ''penalty_points'' = Some (PInt 100) \<and>
   result_field (greenwashing_detector_contract demo_builtins critical_inputs (PDict []))
      ''risk_assessment'' = Some (PStr ''CRITICAL'') \<and>
   result_field (greenwashing_detector_contract demo_builtins critical_inputs (PDict []))
      ''requires_human_review'' = Some (PBool True)"
proof -
  have r: "repeat_offender (PList []) = Inr False"
    by (simp add: repeat_offender_def)
  have n: "py_number (PInt 15) = Some 15" "py_number (PInt 85) = Some 85" by simp_all
  show ?thesis
    using greenwashing_detector_tiers [OF critical_inputs_get(1) critical_inputs_get(2) n(1)
        critical_inputs_get(3) n(2) critical_inputs_get(5) r, of demo_builtins]
    by (simp add: spec_actions_def spec_penalty_def spec_risk_def)
qed

text \<open>
  Claim C4 as stated fails: with score 15 and confidence 85, and a history of three
  entries of score 10, the penalty is 300 and a fourth action is triggered.
\<close>

theorem greenwashing_tier_not_alone:
  "result_field (greenwashing_detector_contract demo_builtins critical_inputs
       (history_context [low_entry, low_entry, low_entry])) ''penalty_points''
     = Some (PInt 300) \<and>
   result_field (greenwashing_detector_contract demo_builtins critical_inputs
       (history_context [low_entry, low_entry, low_entry])) ''actions_triggered''
     = Some (PList [PStr ''IMMEDIATE_FLAG'', PStr ''COMMUNITY_ALERT'',
                    PStr ''REGULATORY_NOTIFICATION'', PStr ''REPEAT_OFFENDER_FLAG''])"
proof -
  have r: "repeat_offender (PList [low_entry, low_entry, low_entry]) = Inr True"
    using repeat_offender_list [of "[low_entry, low_entry, low_entry]"]
    by (simp add: last5_def low_entry_facts)
  have n: "py_number (PInt 15) = Some 15" "py_number (PInt 85) = Some 85" by simp_all
  show ?thesis
    using greenwashing_fields(1,2) [OF critical_inputs_get(1) critical_inputs_get(2) n(1)
        critical_inputs_get(3) n(2) critical_inputs_get(4) r, of demo_builtins]
    by (simp add: spec_actions_def spec_penalty_def)
qed

text \<open>
  Claim C5, as amended. For every company history that is a list whose last five entries
  are dictionaries with a numeric score or none (none counts as 100): REPEAT_OFFENDER_FLAG
  is added to the actions and 200 to the penalty points exactly if the history has more
  than 2 entries and at least 2 of its last 5 entries have a score below 40.
\<close>

theorem repeat_offender_rule:
  assumes "py_get inputs ''company_name'' (PStr ''Unknown'') = Inr name"
    and "py_get inputs ''verification_score'' (PInt 0) = Inr sv"
    and "py_number sv = Some score"
    and "py_get inputs ''confidence'' (PInt 0) = Inr cv"
    and "py_number cv = Some confidence"
    and "py_get context ''company_history'' (PList []) = Inr (PList hs)"
    and "\<forall>h\<in>set (last5 hs). scored h"
  shows "result_field (greenwashing_detector_contract bi inputs context) ''actions_triggered''
      = Some (PList (map PStr (spec_actions score confidence
          @ (if length hs > 2 \<and> length (filter low_score (last5 hs)) \<ge> 2
             then [''REPEAT_OFFENDER_FLAG''] else [])))) \<and>
    result_field (greenwashing_detector_contract bi inputs context) ''penalty_points''
      = Some (PInt (spec_penalty score confidence
          + (if length hs > 2 \<and> length (filter low_score (last5 hs)) \<ge> 2
             then 200 else 0)))"
  using greenwashing_fields(1,2) [OF assms(1-6) repeat_offender_list [OF assms(7)], of bi]
  by simp

theorem repeat_offender_rule_witness:
  "list_all scored (last5 [low_entry, low_entry, low_entry]) \<and>
   length [low_entry, low_entry, low_entry] > 2 \<and>
   length (filter low_score (last5 [low_entry, low_entry, low_entry])) \<ge> 2 \<and>
   result_field (greenwashing_detector_contract demo_builtins critical_inputs
       (history_context [low_entry, low_entry, low_entry])) ''actions_triggered''
     = Some (PList [PStr ''IMMEDIATE_FLAG'', PStr ''COMMUNITY_ALERT'',
                    PStr ''REGULATORY_NOTIFICATION'', PStr ''REPEAT_OFFENDER_FLAG'']) \<and>
   result_field (greenwashing_detector_contract demo_builtins critical_inputs
       (history_context [low_entry, low_entry, low_entry])) ''penalty_points''
     = Some (PInt 300)"
proof -
  have s: "\<forall>h\<in>set (last5 [low_entry, low_entry, low_entry]). scored h"
    by (simp add: last5_def low_entry_facts)
  have n: "py_number (PInt 15) = Some 15" "py_number (PInt 85) = Some 85" by simp_all
  show ?thesis
    using repeat_offender_rule [OF critical_inputs_get(1) critical_inputs_get(2) n(1)
        critical_inputs_get(3) n(2) critical_inputs_get(4) s, of demo_builtins] s
    by (simp add: spec_actions_def spec_penalty_def last5_def low_entry_facts)
qed

text \<open>
  Claim C5 as stated fails: a history of exactly two entries, both of score 10, has two
  of its last five entries below 40, and neither the flag nor the 200 points are added.
\<close>

theorem repeat_offender_needs_three_entries:
  "length (filter low_score (last5 [low_entry, low_entry])) \<ge> 2 \<and>
   result_field (greenwashing_detector_contract demo_builtins critical_inputs
       (history_context [low_entry, low_entry])) ''actions_triggered''
     = Some (PList [PStr ''IMMEDIATE_FLAG'', PStr ''COMMUNITY_ALERT'',
                    PStr ''REGULATORY_NOTIFICATION'']) \<and>
   result_field (greenwashing_detector_contract demo_builtins critical_inputs
       (history_context [low_entry, low_entry])) ''penalty_points''
     = Some (PInt 100)"
proof -
  have r: "repeat_offender (PList [low_entry, low_entry]) = Inr False"
    using repeat_offender_list [of "[low_entry, low_entry]"]
    by (simp add: last5_def low_entry_facts)
  have n: "py_number (PInt 15) = Some 15" "py_number (PInt 85) = Some 85" by simp_all
  show ?thesis
    using greenwashing_fields(1,2) [OF critical_inputs_get(1) critical_inputs_get(2) n(1)
        critical_inputs_get(3) n(2) critical_inputs_get(4) r, of demo_builtins]
    by (simp add: spec_actions_def spec_penalty_def last5_def low_entry_facts)
qed

subsection \<open>The penalty system\<close>

lemma py_int_of_float_nonneg: "0 \<le> x \<Longrightarrow> py_int_of_float x = \<lfloor>x\<rfloor>"
  by (simp add: py_int_of_float_def)

lemma base_penalty_get:
  "table_get base_penalties (PStr severity) 10 = Inr (spec_base_penalty severity)"
  by (simp add: table_get_def base_penalties_def spec_base_penalty_def)

lemma multiplier_get:
  "table_get scale_multipliers (PStr scale) 1 = Inr (spec_multiplier scale)"
  by (simp add: table_get_def scale_multipliers_def spec_multiplier_def)

lemma spec_product_nonneg:
  "0 \<le> (of_int (spec_base_penalty severity * (if repeat then 2 else 1)) :: rat)
         * spec_multiplier scale"
  by (simp add: spec_base_penalty_def spec_multiplier_def)

lemma penalty_result:
  assumes "py_get inputs ''company_name'' (PStr ''Unknown'') = Inr name"
    and "py_get inputs ''violation_severity'' (PStr ''LOW'') = Inr (PStr severity)"
    and "py_get inputs ''repeat_offender'' (PBool False) = Inr rep"
    and "py_get inputs ''impact_scale'' (PStr ''LOCAL'') = Inr (PStr scale)"
  shows "penalty_system_contract rd inputs context = Inr (PDict
       [(''contract_type'', PStr ''penalty_system''),
        (''company_name'', name),
        (''penalty_points'', PInt (spec_penalty_points severity (py_truthy rep) scale)),
        (''consequences'', PList (map PStr
           (spec_consequences (spec_penalty_points severity (py_truthy rep) scale)))),
        (''rehabilitation_required'',
           PBool (spec_penalty_points severity (py_truthy rep) scale \<ge> 200)),
        (''appeal_allowed'',
           PBool (spec_penalty_points severity (py_truthy rep) scale < 1000)),
        (''review_date'', PStr rd)])"
proof -
  have "py_int_of_float (of_int (if py_truthy rep then spec_base_penalty severity * 2
            else spec_base_penalty severity) * spec_multiplier scale)
        = spec_penalty_points severity (py_truthy rep) scale"
    using py_int_of_float_nonneg [OF spec_product_nonneg [of severity "py_truthy rep" scale]]
    by (cases "py_truthy rep") (simp_all add: spec_penalty_points_def)
  then show ?thesis
    using assms
    by (simp add: penalty_system_contract_def base_penalty_get multiplier_get Let_def
        penalty_consequences_def spec_consequences_def)
qed

text \<open>
  Claim C6, as amended. For every penalty-system input with a severity and an impact
  scale in text: penalty_points is the base value (10, 50, 200, 500 for LOW, MEDIUM,
  HIGH, CRITICAL, and 10 for any other text), doubled when \<^verbatim>\<open>repeat_offender\<close> is
  true, multiplied by the multiplier of the scale (1, 1.5, 2, 3 for LOCAL, REGIONAL,
  NATIONAL, GLOBAL, and 1 for any other text) and truncated. The consequences are the
  list of the highest tier reached, of 1000, 500, 200 and 50 points, and no list at all
  below 50 points; rehabilitation is required exactly from 200 points on, and an appeal
  is allowed exactly below 1000 points.
\<close>

theorem penalty_system_rule:
  assumes "py_get inputs ''company_name'' (PStr ''Unknown'') = Inr name"
    and "py_get inputs ''violation_severity'' (PStr ''LOW'') = Inr (PStr severity)"
    and "py_get inputs ''repeat_offender'' (PBool False) = Inr rep"
    and "py_get inputs ''impact_scale'' (PStr ''LOCAL'') = Inr (PStr scale)"
  shows "result_field (penalty_system_contract rd inputs context) ''penalty_points''
      = Some (PInt (spec_penalty_points severity (py_truthy rep) scale)) \<and>
    result_field (penalty_system_contract rd inputs context) ''consequences''
      = Some (PList (map PStr
          (spec_consequences (spec_penalty_points severity (py_truthy rep) scale)))) \<and>
    result_field (penalty_system_contract rd inputs context) ''rehabilitation_required''
      = Some (PBool (spec_penalty_points severity (py_truthy rep) scale \<ge> 200)) \<and>
    result_field (penalty_system_contract rd inputs context) ''appeal_allowed''
      = Some (PBool (spec_penalty_points severity (py_truthy rep) scale < 1000))"
  by (simp add: penalty_result [OF assms] result_field_def field_def)

lemma penalty_inputs_get:
  "py_get ban_inputs ''company_name'' (PStr ''Unknown'') = Inr (PStr ''Acme'')"
  "py_get ban_inputs ''violation_severity'' (PStr ''LOW'') = Inr (PStr ''HIGH'')"
  "py_get ban_inputs ''repeat_offender'' (PBool False) = Inr (PBool True)"
  "py_get ban_inputs ''impact_scale'' (PStr ''LOCAL'') = Inr (PStr ''GLOBAL'')"
  "py_get minor_inputs ''company_name'' (PStr ''Unknown'') = Inr (PStr ''Acme'')"
  "py_get minor_inputs ''violation_severity'' (PStr ''LOW'') = Inr (PStr ''LOW'')"
  "py_get minor_inputs ''repeat_offender'' (PBool False) = Inr (PBool False)"
  "py_get minor_inputs ''impact_scale'' (PStr ''LOCAL'') = Inr (PStr ''LOCAL'')"
  by (simp_all add: ban_inputs_def minor_inputs_def py_get_def)

lemma spec_penalty_points_examples:
  "spec_penalty_points ''HIGH'' True ''GLOBAL'' = 1200"
  "spec_penalty_points ''LOW'' False ''LOCAL'' = 10"
  by (simp_all add: spec_penalty_points_def spec_base_penalty_def spec_multiplier_def)

text \<open>The instance of the specification: HIGH, repeat offender, GLOBAL.\<close>

theorem penalty_system_rule_witness:
  "result_field (penalty_system_contract ''2023-12-14T22:13:20'' ban_inputs (PDict []))
      ''penalty_points'' = Some (PInt 1200) \<and>
   result_field (penalty_system_contract ''2023-12-14T22:13:20'' ban_inputs (PDict []))
      ''consequences''
      = Some (PList [PStr ''PLATFORM_BAN'', PStr ''REGULATORY_REFERRAL'',
                     PStr ''PUBLIC_WARNING_ISSUED'']) \<and>
   result_field (penalty_system_contract ''2023-12-14T22:13:20'' ban_inputs (PDict []))
      ''rehabilitation_required'' = Some (PBool True) \<and>
   result_field (penalty_system_contract ''2023-12-14T22:13:20'' ban_inputs (PDict []))
      ''appeal_allowed'' = Some (PBool False)"
  using penalty_system_rule [OF penalty_inputs_get(1-4), of "''2023-12-14T22:13:20''" "PDict []"]
  by (simp add: spec_penalty_points_examples spec_consequences_def)

text \<open>
  Claim C6 as stated fails: severity LOW, no repeat offender and scale LOCAL give 10
  points, and the consequences are empty, the list of no tier.
\<close>

theorem penalty_below_tiers:
  "result_field (penalty_system_contract ''2023-12-14T22:13:20'' minor_inputs (PDict []))
      ''penalty_points'' = Some (PInt 10) \<and>
   result_field (penalty_system_contract ''2023-12-14T22:13:20'' minor_inputs (PDict []))
      ''consequences'' = Some (PList [])"
  by (simp add: penalty_result [OF penalty_inputs_get(5-8)] result_field_def field_def
      spec_penalty_points_examples spec_consequences_def)

subsection \<open>Execution\<close>

lemma execute_failure:
  "evaluate bi clk (contract_type self) inputs context = Inl e \<Longrightarrow>
   execute bi clk self inputs context =
     (self\<lparr>state := FAILED\<rparr>, Failure (contract_id self) e 50)"
  by (simp add: execute_def)

lemma execute_success:
  assumes "evaluate bi clk (contract_type self) inputs context = Inr result"
  shows "execute bi clk self inputs context =
     (self\<lparr>state := EXECUTED, executed_count := executed_count self + 1,
           total_gas_used := total_gas_used self
             + calculate_gas_usage bi result (fl bi (execution_end clk - execution_start clk)),
           execution_history := execution_history self @
             [\<lparr>execution_id = ''EXEC_'' @ show_int (py_int_of_float (id_time clk))
                  @ ''_'' @ show_int (executed_count self + 1),
               record_inputs = inputs, record_result = result,
               record_gas_used = calculate_gas_usage bi result
                 (fl bi (execution_end clk - execution_start clk)),
               record_execution_time = fl bi (execution_end clk - execution_start clk),
               record_timestamp = utc_timestamp clk\<rparr>]\<rparr>,
      Success (contract_id self)
        (''EXEC_'' @ show_int (py_int_of_float (id_time clk))
           @ ''_'' @ show_int (executed_count self + 1))
        result
        (calculate_gas_usage bi result (fl bi (execution_end clk - execution_start clk)))
        (fl bi (execution_end clk - execution_start clk)))"
  using assms by (simp add: execute_def Let_def)

lemma gas_formula:
  "calculate_gas_usage bi result t =
     100 + int (length (py_str bi result)) div 10 + py_int_of_float (fl bi (t * 50))"
  by (simp add: calculate_gas_usage_def Let_def)

text \<open>
  Claim C7. \<^verbatim>\<open>execute\<close> returns a response in every case. If the evaluator
  raises, the state becomes FAILED and the response is the failure with the contract id,
  the error and gas 50. If the evaluator returns a result, the state becomes EXECUTED,
  the count grows by one, the gas is 100 plus a tenth of the length of the result's text
  plus the integer part of fifty times the execution time (its floor, the time being
  non-negative), one execution record is appended, and the response is the success with
  the contract id, the execution id, the result, the gas and the execution time.
\<close>

theorem execute_never_raises:
  "(evaluate bi clk (contract_type self) inputs context = Inl e \<longrightarrow>
      execute bi clk self inputs context =
        (self\<lparr>state := FAILED\<rparr>, Failure (contract_id self) e 50)) \<and>
   (evaluate bi clk (contract_type self) inputs context = Inr result \<longrightarrow>
      (\<exists>self' eid gas t.
         execute bi clk self inputs context =
           (self', Success (contract_id self) eid result gas t) \<and>
         state self' = EXECUTED \<and>
         executed_count self' = executed_count self + 1 \<and>
         t = fl bi (execution_end clk - execution_start clk) \<and>
         gas = 100 + int (length (py_str bi result)) div 10
                 + py_int_of_float (fl bi (t * 50)) \<and>
         (0 \<le> fl bi (t * 50) \<longrightarrow>
            gas = 100 + int (length (py_str bi result)) div 10 + \<lfloor>fl bi (t * 50)\<rfloor>) \<and>
         total_gas_used self' = total_gas_used self + gas \<and>
         execution_history self' = execution_history self @
           [\<lparr>execution_id = eid, record_inputs = inputs, record_result = result,
             record_gas_used = gas, record_execution_time = t,
             record_timestamp = utc_timestamp clk\<rparr>]))"
proof (intro conjI impI)
  assume "evaluate bi clk (contract_type self) inputs context = Inl e"
  then show "execute bi clk self inputs context =
        (self\<lparr>state := FAILED\<rparr>, Failure (contract_id self) e 50)"
    by (rule execute_failure)
next
  assume ok: "evaluate bi clk (contract_type self) inputs context = Inr result"
  let ?t = "fl bi (execution_end clk - execution_start clk)"
  let ?gas = "calculate_gas_usage bi result ?t"
  let ?eid = "''EXEC_'' @ show_int (py_int_of_float (id_time clk))
           @ ''_'' @ show_int (executed_count self + 1)"
  let ?self' = "fst (execute bi clk self inputs context)"
  have "execute bi clk self inputs context = (?self', Success (contract_id self) ?eid result ?gas ?t)"
    by (simp add: execute_success [OF ok])
  moreover have "state ?self' = EXECUTED" "executed_count ?self' = executed_count self + 1"
    "total_gas_used ?self' = total_gas_used self + ?gas"
    "execution_history ?self' = execution_history self @
           [\<lparr>execution_id = ?eid, record_inputs = inputs, record_result = result,
             record_gas_used = ?gas, record_execution_time = ?t,
             record_timestamp = utc_timestamp clk\<rparr>]"
    by (simp_all add: execute_success [OF ok])
  moreover have "?gas = 100 + int (length (py_str bi result)) div 10
                 + py_int_of_float (fl bi (?t * 50))"
    by (rule gas_formula)
  moreover have "0 \<le> fl bi (?t * 50) \<longrightarrow>
            ?gas = 100 + int (length (py_str bi result)) div 10 + \<lfloor>fl bi (?t * 50)\<rfloor>"
    by (simp add: gas_formula py_int_of_float_nonneg)
  ultimately show "\<exists>self' eid gas t.
         execute bi clk self inputs context =
           (self', Success (contract_id self) eid result gas t) \<and>
         state self' = EXECUTED \<and>
         executed_count self' = executed_count self + 1 \<and>
         t = fl bi (execution_end clk - execution_start clk) \<and>
         gas = 100 + int (length (py_str bi result)) div 10
                 + py_int_of_float (fl bi (t * 50)) \<and>
         (0 \<le> fl bi (t * 50) \<longrightarrow>
            gas = 100 + int (length (py_str bi result)) div 10 + \<lfloor>fl bi (t * 50)\<rfloor>) \<and>
         total_gas_used self' = total_gas_used self + gas \<and>
         execution_history self' = execution_history self @
           [\<lparr>execution_id = eid, record_inputs = inputs, record_result = result,
             record_gas_used = gas, record_execution_time = t,
             record_timestamp = utc_timestamp clk\<rparr>]"
    by blast
qed

lemma bad_inputs_fail:
  "evaluate demo_builtins demo_clock GREENWASHING_DETECTOR bad_inputs (PDict []) = Inl TypeError"
  by (simp add: greenwashing_detector_contract_def greenwashing_tier_def py_get_def
      bad_inputs_def py_and_def py_lt_def)

lemma ban_inputs_succeed:
  "evaluate demo_builtins demo_clock PENALTY_SYSTEM ban_inputs (PDict []) = Inr ban_result"
  using penalty_result [OF penalty_inputs_get(1-4), of "''2023-12-14T22:13:20''" "PDict []"]
  by (simp add: spec_penalty_points_examples spec_consequences_def ban_result_def
      demo_clock_def)

lemma demo_contract_simps:
  "contract_type (demo_contract ctype params) = ctype"
  "contract_id (demo_contract ctype params) = ''SC_'' @ type_value ctype @ ''_1700000000''"
  "executed_count (demo_contract ctype params) = 0"
  "total_gas_used (demo_contract ctype params) = 0"
  "execution_history (demo_contract ctype params) = []"
  "parameters (demo_contract ctype params) = params"
  by (simp_all add: demo_contract_def new_contract_def)

lemma demo_time:
  "execution_end demo_clock - execution_start demo_clock = 1 / 100"
  "fl demo_builtins x = x"
  "utc_timestamp demo_clock = ''2023-11-14T22:13:20''"
  by (simp_all add: demo_builtins_def demo_clock_def)

lemma demo_ids:
  "show_int (py_int_of_float (id_time demo_clock)) = ''1700000000''"
  "show_int 1 = ''1''"
  by (simp_all add: demo_clock_def py_int_of_float_def show_int_def digit_char_def)

lemma floor_half: "\<lfloor>(1::rat) / 2\<rfloor> = 0"
  by (rule floor_unique) simp_all

lemma ban_gas: "calculate_gas_usage demo_builtins ban_result (1 / 100) = 123"
  by (simp add: gas_formula demo_time py_int_of_float_def floor_half)
     (simp add: demo_builtins_def ban_result_def show_int_def digit_char_def)

theorem execute_never_raises_witness:
  "evaluate demo_builtins demo_clock
      (contract_type (demo_contract GREENWASHING_DETECTOR (PDict []))) bad_inputs (PDict [])
     = Inl TypeError \<and>
   execute demo_builtins demo_clock (demo_contract GREENWASHING_DETECTOR (PDict []))
       bad_inputs (PDict [])
     = ((demo_contract GREENWASHING_DETECTOR (PDict []))\<lparr>state := FAILED\<rparr>,
        Failure ''SC_greenwashing_detector_1700000000'' TypeError 50) \<and>
   evaluate demo_builtins demo_clock
      (contract_type (demo_contract PENALTY_SYSTEM (PDict []))) ban_inputs (PDict [])
     = Inr ban_result \<and>
   0 \<le> fl demo_builtins (fl demo_builtins
          (execution_end demo_clock - execution_start demo_clock) * 50) \<and>
   (\<exists>self'. execute demo_builtins demo_clock (demo_contract PENALTY_SYSTEM (PDict []))
        ban_inputs (PDict [])
      = (self', Success ''SC_penalty_system_1700000000'' ''EXEC_1700000000_1'' ban_result
           123 (1 / 100)) \<and>
      state self' = EXECUTED \<and> executed_count self' = 1 \<and> total_gas_used self' = 123 \<and>
      execution_history self' = [ban_record])"
proof -
  let ?g = "demo_contract GREENWASHING_DETECTOR (PDict [])"
  let ?p = "demo_contract PENALTY_SYSTEM (PDict [])"
  have f: "evaluate demo_builtins demo_clock (contract_type ?g) bad_inputs (PDict [])
      = Inl TypeError"
    by (simp only: demo_contract_simps bad_inputs_fail)
  have s: "evaluate demo_builtins demo_clock (contract_type ?p) ban_inputs (PDict [])
      = Inr ban_result"
    by (simp only: demo_contract_simps ban_inputs_succeed)
  have t: "0 \<le> fl demo_builtins (fl demo_builtins
          (execution_end demo_clock - execution_start demo_clock) * 50)"
    by (simp add: demo_time)
  have E: "execute demo_builtins demo_clock ?p ban_inputs (PDict [])
      = (?p\<lparr>state := EXECUTED, executed_count := 1, total_gas_used := 123,
            execution_history := [ban_record]\<rparr>,
         Success ''SC_penalty_system_1700000000'' ''EXEC_1700000000_1'' ban_result
           123 (1 / 100))"
    unfolding execute_success [OF s]
    by (simp add: demo_contract_simps demo_ids demo_time ban_gas ban_record_def)
  from execute_never_raises [of demo_builtins demo_clock ?g bad_inputs "PDict []" TypeError
      ban_result] f
  have A: "execute demo_builtins demo_clock ?g bad_inputs (PDict [])
      = (?g\<lparr>state := FAILED\<rparr>, Failure ''SC_greenwashing_detector_1700000000'' TypeError 50)"
    by (simp add: demo_contract_simps)
  from execute_never_raises [of demo_builtins demo_clock ?p ban_inputs "PDict []" TypeError
      ban_result] s
  obtain self' eid gas t' where B:
    "execute demo_builtins demo_clock ?p ban_inputs (PDict [])
       = (self', Success (contract_id ?p) eid ban_result gas t')"
    "state self' = EXECUTED" "executed_count self' = executed_count ?p + 1"
    "total_gas_used self' = total_gas_used ?p + gas"
    "execution_history self' = execution_history ?p @
       [\<lparr>execution_id = eid, record_inputs = ban_inputs, record_result = ban_result,
         record_gas_used = gas, record_execution_time = t',
         record_timestamp = utc_timestamp demo_clock\<rparr>]"
    by blast
  from B(1) E have "eid = ''EXEC_1700000000_1''" "gas = 123" "t' = 1 / 100"
    by simp_all
  with B have "execute demo_builtins demo_clock ?p ban_inputs (PDict [])
      = (self', Success ''SC_penalty_system_1700000000'' ''EXEC_1700000000_1'' ban_result
           123 (1 / 100)) \<and>
      state self' = EXECUTED \<and> executed_count self' = 1 \<and> total_gas_used self' = 123 \<and>
      execution_history self' = [ban_record]"
    by (simp add: demo_contract_simps ban_record_def demo_clock_def)
  then show ?thesis using f A s t by blast
qed

text \<open>
  Claim C9. When \<^verbatim>\<open>execute\<close> returns a failure, the contract is as it was before
  the call but for its state, which is FAILED: the count of executions, the total of gas
  and the execution history are unchanged.
\<close>

theorem failed_execution_keeps_counters:
  assumes "snd (execute bi clk self inputs context) = Failure cid e gas"
  shows "fst (execute bi clk self inputs context) = self\<lparr>state := FAILED\<rparr> \<and>
    executed_count (fst (execute bi clk self inputs context)) = executed_count self \<and>
    total_gas_used (fst (execute bi clk self inputs context)) = total_gas_used self \<and>
    execution_history (fst (execute bi clk self inputs context)) = execution_history self \<and>
    state (fst (execute bi clk self inputs context)) = FAILED"
proof (cases "evaluate bi clk (contract_type self) inputs context")
  case (Inl err)
  from execute_failure [OF Inl] show ?thesis by simp
next
  case (Inr result)
  with assms show ?thesis by (simp add: execute_success)
qed

theorem failed_execution_keeps_counters_witness:
  "snd (execute demo_builtins demo_clock (demo_contract GREENWASHING_DETECTOR (PDict []))
       bad_inputs (PDict []))
     = Failure ''SC_greenwashing_detector_1700000000'' TypeError 50 \<and>
   fst (execute demo_builtins demo_clock (demo_contract GREENWASHING_DETECTOR (PDict []))
       bad_inputs (PDict []))
     = (demo_contract GREENWASHING_DETECTOR (PDict []))\<lparr>state := FAILED\<rparr> \<and>
   executed_count (fst (execute demo_builtins demo_clock
       (demo_contract GREENWASHING_DETECTOR (PDict [])) bad_inputs (PDict []))) = 0 \<and>
   execution_history (fst (execute demo_builtins demo_clock
       (demo_contract GREENWASHING_DETECTOR (PDict [])) bad_inputs (PDict []))) = []"
proof -
  let ?g = "demo_contract GREENWASHING_DETECTOR (PDict [])"
  have "evaluate demo_builtins demo_clock (contract_type ?g) bad_inputs (PDict [])
      = Inl TypeError"
    by (simp only: demo_contract_simps bad_inputs_fail)
  from execute_failure [OF this]
  have f: "snd (execute demo_builtins demo_clock ?g bad_inputs (PDict []))
      = Failure ''SC_greenwashing_detector_1700000000'' TypeError 50"
    by (simp add: demo_contract_simps)
  from failed_execution_keeps_counters [OF f] f show ?thesis
    by (simp add: demo_contract_simps)
qed

text \<open>
  Claim C10. Two contracts of the same type, whatever their deployment parameters (and
  their other fields), give the same result, or the same error, on the same inputs and
  context: no evaluator reads \<^verbatim>\<open>self.parameters\<close>.
\<close>

theorem result_independent_of_parameters:
  assumes "contract_type c1 = contract_type c2"
  shows "outcome (snd (execute bi clk c1 inputs context))
       = outcome (snd (execute bi clk c2 inputs context))"
proof (cases "evaluate bi clk (contract_type c1) inputs context")
  case (Inl e)
  with assms have "evaluate bi clk (contract_type c2) inputs context = Inl e" by simp
  from execute_failure [OF Inl] execute_failure [OF this] show ?thesis
    by (simp add: outcome_def)
next
  case (Inr result)
  with assms have "evaluate bi clk (contract_type c2) inputs context = Inr result" by simp
  from execute_success [OF Inr] execute_success [OF this] show ?thesis
    by (simp add: outcome_def)
qed

theorem result_independent_of_parameters_witness:
  "contract_type (demo_contract SUSTAINABILITY_REWARDS (PDict [(''max_points'', PInt 1000)]))
     = contract_type (demo_contract SUSTAINABILITY_REWARDS (PDict [(''max_points'', PInt 5)])) \<and>
   parameters (demo_contract SUSTAINABILITY_REWARDS (PDict [(''max_points'', PInt 1000)]))
     \<noteq> parameters (demo_contract SUSTAINABILITY_REWARDS (PDict [(''max_points'', PInt 5)])) \<and>
   outcome (snd (execute demo_builtins demo_clock
       (demo_contract SUSTAINABILITY_REWARDS (PDict [(''max_points'', PInt 1000)]))
       critical_inputs (PDict [])))
     = outcome (snd (execute demo_builtins demo_clock
       (demo_contract SUSTAINABILITY_REWARDS (PDict [(''max_points'', PInt 5)]))
       critical_inputs (PDict [])))"
proof -
  have t: "contract_type (demo_contract SUSTAINABILITY_REWARDS (PDict [(''max_points'', PInt 1000)]))
     = contract_type (demo_contract SUSTAINABILITY_REWARDS (PDict [(''max_points'', PInt 5)]))"
    by (simp only: demo_contract_simps)
  from result_independent_of_parameters [OF t] t show ?thesis
    by (simp add: demo_contract_simps)
qed

subsection \<open>The statistics of the registry\<close>

lemma sum_dict_set_absent:
  "map_of kvs k = None \<Longrightarrow>
   sum_list (map (\<lambda>(cid, c). h c) (dict_set k v kvs))
     = sum_list (map (\<lambda>(cid, c). h c) kvs) + (h v :: int)"
  by (induction kvs) (auto split: if_splits)

lemma sum_dict_set_present:
  "map_of kvs k = Some v \<Longrightarrow>
   sum_list (map (\<lambda>(cid, c). h c) (dict_set k v' kvs))
     = sum_list (map (\<lambda>(cid, c). h c) kvs) - h v + (h v' :: int)"
  by (induction kvs) (auto split: if_splits)

lemma execute_count_mono:
  "executed_count self \<le> executed_count (fst (execute bi clk self inputs context))"
proof (cases "evaluate bi clk (contract_type self) inputs context")
  case (Inl e)
  from execute_failure [OF Inl] show ?thesis by simp
next
  case (Inr result)
  from execute_success [OF Inr] show ?thesis by simp
qed

text \<open>In every state of the registry the total is the sum of the counts.\<close>

lemma total_executions_sum:
  "total_executions (get_contract_statistics bi reg)
     = sum_list (map (\<lambda>(cid, c). executed_count c) (contracts reg))"
  by (simp add: get_contract_statistics_def Let_def)

text \<open>
  An execution never lowers the total, and neither does a deployment that replaces no
  contract that has been executed.
\<close>

lemma apply_op_mono:
  assumes "harmless_op reg x"
  shows "total_executions (get_contract_statistics bi reg)
      \<le> total_executions (get_contract_statistics bi (apply_op bi reg x))"
proof (cases x)
  case (Deploy now created ctype creator_email params)
  define cid where "cid = ''SC_'' @ type_value ctype @ ''_'' @ show_int (py_int_of_float now)"
  have r: "contracts (apply_op bi reg x)
      = dict_set cid (new_contract cid ctype creator_email params created) (contracts reg)"
    by (simp add: Deploy deploy_contract_def Let_def cid_def)
  have h: "harmless_op reg x
      = (case map_of (contracts reg) cid of None \<Rightarrow> True | Some c \<Rightarrow> executed_count c = 0)"
    by (simp add: Deploy cid_def)
  have n: "executed_count (new_contract cid ctype creator_email params created) = 0"
    by (simp add: new_contract_def)
  show ?thesis
  proof (cases "map_of (contracts reg) cid")
    case None
    show ?thesis
      unfolding total_executions_sum r sum_dict_set_absent [OF None] n by simp
  next
    case (Some c)
    with assms h have "executed_count c = 0" by simp
    then show ?thesis
      unfolding total_executions_sum r sum_dict_set_present [OF Some] n by simp
  qed
next
  case (Execute clk cid inputs ctx)
  show ?thesis
  proof (cases "map_of (contracts reg) cid")
    case None
    with Execute show ?thesis by (simp add: execute_contract_def)
  next
    case (Some c)
    obtain c' r where e: "execute bi clk c inputs ctx = (c', r)"
      by (cases "execute bi clk c inputs ctx")
    from execute_count_mono [of c bi clk inputs ctx] e
    have "executed_count c \<le> executed_count c'" by simp
    with Execute Some e show ?thesis
      by (simp add: total_executions_sum execute_contract_def
          sum_dict_set_present [OF Some])
  qed
qed

lemma run_mono:
  "harmless_ops bi reg xs \<Longrightarrow>
   total_executions (get_contract_statistics bi reg)
     \<le> total_executions (get_contract_statistics bi (foldl (apply_op bi) reg xs))"
proof (induction xs arbitrary: reg)
  case Nil
  then show ?case by simp
next
  case (Cons x xs)
  from Cons.prems have f: "harmless_op reg x"
    and g: "harmless_ops bi (apply_op bi reg x) xs"
    by simp_all
  from apply_op_mono [OF f, of bi] Cons.IH [OF g] show ?case by simp
qed

lemma total_executions_monotone:
  assumes "harmless_ops bi (run_ops bi ops1) ops2"
  shows "total_executions (get_contract_statistics bi (run_ops bi ops1))
      \<le> total_executions (get_contract_statistics bi (run_ops bi (ops1 @ ops2)))"
  using run_mono [OF assms] by (simp add: run_ops_def)

text \<open>The history of the example.\<close>

lemma critical_evaluates:
  "\<exists>result. evaluate demo_builtins demo_clock GREENWASHING_DETECTOR critical_inputs (PDict [])
     = Inr result"
proof -
  have r: "repeat_offender (PList []) = Inr False"
    by (simp add: repeat_offender_def)
  have n: "py_number (PInt 15) = Some 15" "py_number (PInt 85) = Some 85" by simp_all
  from greenwashing_result [OF critical_inputs_get(1) critical_inputs_get(2) n(1)
      critical_inputs_get(3) n(2) critical_inputs_get(5) r, of demo_builtins]
  show ?thesis by auto
qed

lemma clock_ids:
  "show_int (py_int_of_float 1700000000) = ''1700000000''"
  "show_int (py_int_of_float (1700000000 + 1 / 2)) = ''1700000000''"
proof -
  have "\<lfloor>(1700000000::rat) + 1 / 2\<rfloor> = 1700000000"
    by (rule floor_unique) simp_all
  then show "show_int (py_int_of_float (1700000000 + 1 / 2)) = ''1700000000''"
    by (simp add: py_int_of_float_def show_int_def digit_char_def)
  show "show_int (py_int_of_float 1700000000) = ''1700000000''"
    by (simp add: py_int_of_float_def show_int_def digit_char_def)
qed

lemma deploy_demo:
  "apply_op bi reg (Deploy 1700000000 1700000000 ctype ''system@greenguard.com'' params)
     = reg\<lparr>contracts := dict_set (''SC_'' @ type_value ctype @ ''_1700000000'')
               (demo_contract ctype params) (contracts reg),
            contract_registry := dict_set ctype (''SC_'' @ type_value ctype @ ''_1700000000'')
               (contract_registry reg)\<rparr>"
  by (simp add: deploy_contract_def Let_def demo_contract_def clock_ids)

lemma defaults_run:
  "contracts (run_ops bi (deploy_default_contracts 1700000000 1700000000))
     = [(''SC_greenwashing_detector_1700000000'',
          demo_contract GREENWASHING_DETECTOR (PDict [(''sensitivity'', PFloat (7 / 10))])),
        (''SC_sustainability_rewards_1700000000'',
          demo_contract SUSTAINABILITY_REWARDS (PDict [(''max_points'', PInt 1000)])),
        (''SC_automatic_flagging_1700000000'',
          demo_contract AUTOMATIC_FLAGGING (PDict [(''threshold'', PInt 50)])),
        (''SC_penalty_system_1700000000'',
          demo_contract PENALTY_SYSTEM (PDict [(''max_penalty'', PInt 1000)])),
        (''SC_verification_bounty_1700000000'',
          demo_contract VERIFICATION_BOUNTY (PDict [(''max_bounty'', PInt 200)])),
        (''SC_transparency_tracker_1700000000'',
          demo_contract TRANSPARENCY_TRACKER
            (PDict [(''update_frequency'', PStr ''weekly'')]))]"
  by (simp add: run_ops_def deploy_default_contracts_def default_contracts_def
      deploy_demo empty_registry_def del: apply_op.simps)

lemma execute_detector:
  assumes "contracts reg = (''SC_greenwashing_detector_1700000000'', c) # rest"
    and "contract_type c = GREENWASHING_DETECTOR"
  shows "\<exists>c'. contracts (apply_op demo_builtins reg
        (Execute demo_clock ''SC_greenwashing_detector_1700000000'' critical_inputs (PDict [])))
      = (''SC_greenwashing_detector_1700000000'', c') # rest \<and>
      executed_count c' = executed_count c + 1"
proof -
  from critical_evaluates assms(2) obtain result where
    "evaluate demo_builtins demo_clock (contract_type c) critical_inputs (PDict []) = Inr result"
    by auto
  from execute_success [OF this] assms show ?thesis
    by (simp add: execute_contract_def)
qed

lemma first_ops_run:
  "\<exists>c. contracts (run_ops demo_builtins first_ops)
       = (''SC_greenwashing_detector_1700000000'', c) #
         tl (contracts (run_ops demo_builtins (deploy_default_contracts 1700000000 1700000000))) \<and>
     executed_count c = 1"
proof -
  let ?r = "run_ops demo_builtins (deploy_default_contracts 1700000000 1700000000)"
  have "contracts ?r = (''SC_greenwashing_detector_1700000000'',
      demo_contract GREENWASHING_DETECTOR (PDict [(''sensitivity'', PFloat (7 / 10))]))
      # tl (contracts ?r)"
    by (simp add: defaults_run)
  from execute_detector [OF this] show ?thesis
    by (simp add: run_ops_def first_ops_def demo_contract_simps)
qed

lemma defaults_rest_count:
  "sum_list (map (\<lambda>(cid, c). executed_count c)
     (tl (contracts (run_ops demo_builtins (deploy_default_contracts 1700000000 1700000000)))))
   = 0"
  by (simp add: defaults_run demo_contract_simps)

lemma redeploy_demo:
  "contracts (apply_op bi reg redeploy_op)
     = dict_set ''SC_greenwashing_detector_1700000000''
         (new_contract ''SC_greenwashing_detector_1700000000'' GREENWASHING_DETECTOR
            ''system@greenguard.com''
            (PDict [(''sensitivity'', PFloat (7 / 10)), (''auto_flag'', PBool True)])
            (1700000000 + 1 / 2))
         (contracts reg)"
  unfolding redeploy_op_def apply_op.simps deploy_contract_def Let_def clock_ids
  by simp

lemma redeploy_run:
  "\<exists>c. contracts (run_ops demo_builtins (first_ops @ [redeploy_op]))
       = (''SC_greenwashing_detector_1700000000'', c) #
         tl (contracts (run_ops demo_builtins (deploy_default_contracts 1700000000 1700000000))) \<and>
     executed_count c = 0"
proof -
  from first_ops_run obtain c where
    "contracts (run_ops demo_builtins first_ops)
       = (''SC_greenwashing_detector_1700000000'', c) #
         tl (contracts (run_ops demo_builtins (deploy_default_contracts 1700000000 1700000000)))"
    by blast
  then show ?thesis
    by (simp add: run_ops_def redeploy_demo new_contract_def)
qed

text \<open>
  Claim C8. The total is the sum of the counts in every state, and the code keeps it from
  falling as long as no deployment replaces a contract that has been executed (the two
  lemmas above). But the id of a deployment is made of the type and the second of the
  clock, and \<^verbatim>\<open>deploy_contract\<close> assigns to that key without a look at it. At the
  history of the example the constructor deploys the six default contracts, the detector
  is executed once, and the detector is deployed again within the same second: the second
  deployment replaces the executed contract, and \<^verbatim>\<open>total_executions\<close> goes from 1 to
  0 with no reset.
\<close>

theorem redeploy_lowers_total_executions:
  "total_executions (get_contract_statistics demo_builtins (run_ops demo_builtins first_ops))
     = 1 \<and>
   total_executions (get_contract_statistics demo_builtins
       (run_ops demo_builtins (first_ops @ [redeploy_op]))) = 0 \<and>
   \<not> total_executions (get_contract_statistics demo_builtins (run_ops demo_builtins first_ops))
     \<le> total_executions (get_contract_statistics demo_builtins
         (run_ops demo_builtins (first_ops @ [redeploy_op])))"
proof -
  from first_ops_run have a:
    "total_executions (get_contract_statistics demo_builtins (run_ops demo_builtins first_ops))
       = 1"
    by (auto simp: total_executions_sum defaults_rest_count)
  from redeploy_run have b:
    "total_executions (get_contract_statistics demo_builtins
       (run_ops demo_builtins (first_ops @ [redeploy_op]))) = 0"
    by (auto simp: total_executions_sum defaults_rest_count)
  from a b show ?thesis by simp
qed

end
